theory Spec2Isabelle
  imports Main
begin

section \<open>Strings as the scripts use them\<close>

text \<open>
  A JavaScript string is modelled as a \<^typ>\<open>string\<close> of ASCII characters. The case
  conversions change the 26 Latin letters and leave every other character as it is.
\<close>

definition lowerChar :: "char \<Rightarrow> char" where
  "lowerChar c =
     (case map_of (zip ''ABCDEFGHIJKLMNOPQRSTUVWXYZ'' ''abcdefghijklmnopqrstuvwxyz'') c of
        Some d \<Rightarrow> d
      | None \<Rightarrow> c)"

definition upperChar :: "char \<Rightarrow> char" where
  "upperChar c =
     (case map_of (zip ''abcdefghijklmnopqrstuvwxyz'' ''ABCDEFGHIJKLMNOPQRSTUVWXYZ'') c of
        Some d \<Rightarrow> d
      | None \<Rightarrow> c)"

definition toLowerCase :: "string \<Rightarrow> string" where
  "toLowerCase s = map lowerChar s"

definition toUpperCase :: "string \<Rightarrow> string" where
  "toUpperCase s = map upperChar s"

text \<open>
  \<open>s.startsWith(t)\<close> and \<open>s.includes(t)\<close> (here \<open>includes_str\<close>): \<open>t\<close> occurs in
  \<open>s\<close> at the front, or anywhere.
\<close>

fun startsWith :: "string \<Rightarrow> string \<Rightarrow> bool" where
  "startsWith s [] = True"
| "startsWith [] (d # t) = False"
| "startsWith (c # s) (d # t) = (c = d \<and> startsWith s t)"

fun includes_str :: "string \<Rightarrow> string \<Rightarrow> bool" where
  "includes_str [] t = (t = [])"
| "includes_str (c # s) t = (startsWith (c # s) t \<or> includes_str s t)"

text \<open>
  White space as \<open>trim\<close> and \<open>parseInt\<close> skip it: tab, line feed, vertical tab, form
  feed, carriage return and space.
\<close>

definition isWhiteSpace :: "char \<Rightarrow> bool" where
  "isWhiteSpace c = (c \<in> set [CHR 0x09, CHR 0x0A, CHR 0x0B, CHR 0x0C, CHR 0x0D, CHR '' ''])"

definition trim :: "string \<Rightarrow> string" where
  "trim s = rev (dropWhile isWhiteSpace (rev (dropWhile isWhiteSpace s)))"

text \<open>\<open>s.split(sep)\<close> for a one-character separator: never an empty array.\<close>

fun split_str :: "char \<Rightarrow> string \<Rightarrow> string list" where
  "split_str sep [] = [[]]"
| "split_str sep (c # cs) =
     (if c = sep then [] # split_str sep cs
      else (case split_str sep cs of
              [] \<Rightarrow> [[c]]
            | p # ps \<Rightarrow> (c # p) # ps))"

text \<open>
  Numbers. A number the scripts compute is an \<^typ>\<open>int option\<close>, \<open>None\<close> standing for
  \<open>NaN\<close>. \<open>parseInt\<close> with no radix: leading white space, a sign, \<open>0x\<close> for base 16,
  then the longest run of digits; \<open>NaN\<close> when there is none. The value is exact, as
  JavaScript's is up to \<open>2^53\<close>.
\<close>

definition digitOf :: "char \<Rightarrow> nat option" where
  "digitOf c =
     map_of (zip ''0123456789abcdefABCDEF''
       [0, 1, 2, 3, 4, 5, 6, 7, 8, 9, 10, 11, 12, 13, 14, 15, 10, 11, 12, 13, 14, 15]) c"

definition isDigit :: "nat \<Rightarrow> char \<Rightarrow> bool" where
  "isDigit radix c = (case digitOf c of None \<Rightarrow> False | Some d \<Rightarrow> d < radix)"

definition digitsValue :: "nat \<Rightarrow> string \<Rightarrow> nat" where
  "digitsValue radix ds =
     foldl (\<lambda>acc c. acc * radix + (case digitOf c of None \<Rightarrow> 0 | Some d \<Rightarrow> d)) 0 ds"

definition parseInt :: "string \<Rightarrow> int option" where
  "parseInt str =
     (let s = dropWhile isWhiteSpace str;
          negative = startsWith s ''-'';
          s1 = (if startsWith s ''-'' \<or> startsWith s ''+'' then drop 1 s else s);
          hex = (startsWith s1 ''0x'' \<or> startsWith s1 ''0X'');
          radix = (if hex then 16 else 10);
          s2 = (if hex then drop 2 s1 else s1);
          ds = takeWhile (isDigit radix) s2
      in if ds = [] then None
         else Some ((if negative then - 1 else 1) * int (digitsValue radix ds)))"

text \<open>The remainder \<open>a % b\<close> for a positive \<open>b\<close>: it has the sign of \<open>a\<close>.\<close>

definition jsRem :: "int \<Rightarrow> int \<Rightarrow> int" where
  "jsRem a b = (if a < 0 then - ((- a) mod b) else a mod b)"

text \<open>An integer inside a template literal.\<close>

fun natToString :: "nat \<Rightarrow> string" where
  "natToString n =
     (if n < 10 then [''0123456789'' ! n]
      else natToString (n div 10) @ [''0123456789'' ! (n mod 10)])"

definition numberToString :: "int \<Rightarrow> string" where
  "numberToString i = (if i < 0 then ''-'' @ natToString (nat (- i)) else natToString (nat i))"

text \<open>A string that may be \<open>undefined\<close>, inside a template literal.\<close>

definition toStringOrUndefined :: "string option \<Rightarrow> string" where
  "toStringOrUndefined x = (case x of None \<Rightarrow> ''undefined'' | Some s \<Rightarrow> s)"

text \<open>
  The time value of \<open>new Date(s)\<close> for a date-only string \<open>YYYY-MM-DD\<close> of the calendar:
  midnight UTC of that day, in milliseconds since 1970-01-01. Every other string is
  left to the host's parser, and this function gives \<open>None\<close> for it.
\<close>

definition daysFromCivil :: "int \<Rightarrow> int \<Rightarrow> int \<Rightarrow> int" where
  "daysFromCivil y m d =
     (let y1 = (if m \<le> 2 then y - 1 else y);
          era = y1 div 400;
          yoe = y1 - era * 400;
          mp = (m + 9) mod 12;
          doy = (153 * mp + 2) div 5 + d - 1;
          doe = yoe * 365 + yoe div 4 - yoe div 100 + doy
      in era * 146097 + doe - 719468)"

definition daysInMonth :: "int \<Rightarrow> int \<Rightarrow> int" where
  "daysInMonth y m =
     (if m = 2 then (if y mod 4 = 0 \<and> (y mod 100 \<noteq> 0 \<or> y mod 400 = 0) then 29 else 28)
      else if m = 4 \<or> m = 6 \<or> m = 9 \<or> m = 11 then 30 else 31)"

definition isoDateValue :: "string \<Rightarrow> int option" where
  "isoDateValue s =
     (if length s = 10 \<and> s ! 4 = CHR ''-'' \<and> s ! 7 = CHR ''-''
         \<and> list_all (isDigit 10) (take 4 s @ take 2 (drop 5 s) @ drop 8 s) then
        (let y = int (digitsValue 10 (take 4 s));
             m = int (digitsValue 10 (take 2 (drop 5 s)));
             d = int (digitsValue 10 (drop 8 s))
         in if 1 \<le> m \<and> m \<le> 12 \<and> 1 \<le> d \<and> d \<le> daysInMonth y m
            then Some (86400000 * daysFromCivil y m d) else None)
      else None)"

section \<open>The appointment record\<close>

text \<open>
  One element of the array that \<open>GET /appointments\<close> returns. A field the scripts guard
  with \<open>||\<close> before use may be \<open>null\<close> or missing: it is an option, \<open>None\<close> standing
  for \<open>null\<close>/\<open>undefined\<close>. The field \<open>id\<close> is called \<open>apt_id\<close> here.
\<close>

record appointment =
  apt_id :: int
  student_name :: string
  student_email :: "string option"
  service_type :: "string option"
  urgency :: "string option"
  appointment_date :: string
  appointment_time :: "string option"
  reason :: string
  booking_mode :: string
  status :: string
  admin_note :: "string option"

text \<open>\<open>x || d\<close> on a string-or-missing value: the empty string is falsy as well.\<close>

definition orElse :: "string option \<Rightarrow> string \<Rightarrow> string" where
  "orElse x d = (case x of None \<Rightarrow> d | Some s \<Rightarrow> if s = [] then d else s)"

section \<open>Admin dashboard: filter and sort\<close>

text \<open>The body of the \<open>if\<close>/\<open>else if\<close> chain on \<open>sortChoice\<close> inside the filter callback.\<close>

definition matchesType :: "string \<Rightarrow> appointment \<Rightarrow> bool" where
  "matchesType sortChoice apt =
     (let service = toLowerCase (orElse (service_type apt) '''');
          urg = toLowerCase (orElse (urgency apt) '''')
      in if sortChoice = ''clearance-urgent'' then
           includes_str service ''clearance'' \<and> (urg = ''urgent'' \<or> urg = ''high'')
         else if sortChoice = ''consultation-urgent'' then
           includes_str service ''consultation'' \<and> (urg = ''urgent'' \<or> urg = ''high'')
         else if sortChoice = ''clearance-normal'' then
           includes_str service ''clearance'' \<and> (urg = ''normal'' \<or> urg = ''low'')
         else if sortChoice = ''consultation-normal'' then
           includes_str service ''consultation'' \<and> (urg = ''normal'' \<or> urg = ''low'')
         else True)"

text \<open>
  The filter callback. \<open>searchInput\<close> is the raw value of the search box; the function
  lowercases it, as \<open>applyFiltersAndSort\<close> does before filtering.
\<close>

definition filterPredicate :: "string \<Rightarrow> string \<Rightarrow> string \<Rightarrow> appointment \<Rightarrow> bool" where
  "filterPredicate statusFilter searchInput sortChoice apt =
     (let searchTerm = toLowerCase searchInput;
          matchesStatus = (statusFilter = ''all'' \<or> status apt = statusFilter);
          matchesSearch = includes_str (toLowerCase (student_name apt)) searchTerm
      in matchesStatus \<and> matchesSearch \<and> matchesType sortChoice apt)"

text \<open>
  The object literal \<open>statusPriority\<close>, and the lookup \<open>statusPriority[s] || 99\<close>. A key
  the literal does not have is looked up in \<open>Object.prototype\<close>: for one of its
  property names the lookup gives that inherited object, which is truthy and not a
  number; for any other key it gives \<open>undefined\<close> and the priority is 99.
\<close>

definition statusPriority :: "(string \<times> nat) list" where
  "statusPriority =
     [(''pending'', 1), (''approved'', 2), (''completed'', 3), (''rejected'', 3), (''canceled'', 3)]"

definition objectPrototypeKeys :: "string list" where
  "objectPrototypeKeys =
     [''constructor'', ''hasOwnProperty'', ''isPrototypeOf'', ''propertyIsEnumerable'',
      ''toLocaleString'', ''toString'', ''valueOf'', ''__proto__'',
      ''__defineGetter__'', ''__defineSetter__'', ''__lookupGetter__'', ''__lookupSetter__'']"

datatype priority = Number nat | Inherited string

definition priorityOf :: "string \<Rightarrow> priority" where
  "priorityOf s =
     (case map_of statusPriority s of
        Some p \<Rightarrow> Number p
      | None \<Rightarrow> if s \<in> set objectPrototypeKeys then Inherited s else Number 99)"

text \<open>
  The comparator passed to \<open>sort\<close>. \<open>dateValue\<close> is the time value of \<open>new Date(s)\<close> in
  milliseconds, \<open>None\<close> for an invalid date; the result \<open>None\<close> is \<open>NaN\<close>.
\<close>

definition compareFn :: "(string \<Rightarrow> int option) \<Rightarrow> appointment \<Rightarrow> appointment \<Rightarrow> int option" where
  "compareFn dateValue a b =
     (let priorityA = priorityOf (status a);
          priorityB = priorityOf (status b)
      in if priorityA \<noteq> priorityB then
           (case (priorityA, priorityB) of
              (Number x, Number y) \<Rightarrow> Some (int x - int y)
            | _ \<Rightarrow> None)
         else
           (case (dateValue (appointment_date b), dateValue (appointment_date a)) of
              (Some tb, Some ta) \<Rightarrow> Some (tb - ta)
            | _ \<Rightarrow> None))"

text \<open>
  \<open>Array.prototype.sort\<close> with a comparator: a stable sort in which a comparator result
  of \<open>NaN\<close> counts as 0. The model is a stable insertion sort; for a comparator that is
  a consistent ordering every stable sort gives the same array.
\<close>

definition sortCompare :: "('a \<Rightarrow> 'a \<Rightarrow> int option) \<Rightarrow> 'a \<Rightarrow> 'a \<Rightarrow> int" where
  "sortCompare f x y = (case f x y of None \<Rightarrow> 0 | Some v \<Rightarrow> v)"

fun insertSorted :: "('a \<Rightarrow> 'a \<Rightarrow> int option) \<Rightarrow> 'a \<Rightarrow> 'a list \<Rightarrow> 'a list" where
  "insertSorted f x [] = [x]"
| "insertSorted f x (y # ys) =
     (if sortCompare f x y \<le> 0 then x # y # ys else y # insertSorted f x ys)"

fun sortWith :: "('a \<Rightarrow> 'a \<Rightarrow> int option) \<Rightarrow> 'a list \<Rightarrow> 'a list" where
  "sortWith f [] = []"
| "sortWith f (x # xs) = insertSorted f x (sortWith f xs)"

text \<open>The array \<open>filtered\<close> after the call of \<open>sort\<close>: what the admin table displays.\<close>

definition filteredSorted ::
  "(string \<Rightarrow> int option) \<Rightarrow> appointment list \<Rightarrow> string \<Rightarrow> string \<Rightarrow> string \<Rightarrow> appointment list" where
  "filteredSorted dateValue allAppointments statusFilter searchInput sortChoice =
     sortWith (compareFn dateValue)
       (filter (filterPredicate statusFilter searchInput sortChoice) allAppointments)"

section \<open>Student dashboard: filter\<close>

text \<open>The array that \<open>filterAppointments\<close> hands to the renderer.\<close>

definition studentFiltered :: "appointment list \<Rightarrow> string \<Rightarrow> appointment list" where
  "studentFiltered allAppointments filter_value =
     (if filter_value = ''all'' then allAppointments
      else filter (\<lambda>apt. status apt = filter_value) allAppointments)"

section \<open>Rendering\<close>

text \<open>
  \<open>formatTime\<close> of the admin dashboard: the parts of the split are read by index, and
  an index past the end gives \<open>undefined\<close>.
\<close>

definition index :: "'a list \<Rightarrow> nat \<Rightarrow> 'a option" where
  "index xs i = (if i < length xs then Some (xs ! i) else None)"

definition admin_formatTime :: "string option \<Rightarrow> string" where
  "admin_formatTime timeStr =
     (case timeStr of
        None \<Rightarrow> ''''
      | Some t \<Rightarrow>
          if t = [] then ''''
          else (let parts = split_str CHR '':'' t;
                    hour = parseInt (toStringOrUndefined (index parts 0));
                    minutes = index parts 1;
                    ampm = (case hour of None \<Rightarrow> ''AM'' | Some h \<Rightarrow> if h \<ge> 12 then ''PM'' else ''AM'');
                    hour1 = (case hour of None \<Rightarrow> None | Some h \<Rightarrow> Some (jsRem h 12));
                    hour2 = (case hour1 of None \<Rightarrow> 12 | Some h \<Rightarrow> if h = 0 then 12 else h)
                in numberToString hour2 @ '':'' @ toStringOrUndefined minutes @ '' '' @ ampm))"

text \<open>
  \<open>formatTime\<close> of the student dashboard: the array pattern \<open>[hours, minutes]\<close> binds
  the first two parts, \<open>undefined\<close> where the array is shorter.
\<close>

definition student_formatTime :: "string option \<Rightarrow> string" where
  "student_formatTime timeStr =
     (case timeStr of
        None \<Rightarrow> ''''
      | Some t \<Rightarrow>
          if t = [] then ''''
          else (let (hours, minutes) =
                      (case split_str CHR '':'' t of
                         [] \<Rightarrow> (None, None)
                       | [h] \<Rightarrow> (Some h, None)
                       | h # m # rest \<Rightarrow> (Some h, Some m));
                    hour = parseInt (toStringOrUndefined hours);
                    ampm = (case hour of None \<Rightarrow> ''AM'' | Some h \<Rightarrow> if h \<ge> 12 then ''PM'' else ''AM'');
                    hour1 = (case hour of None \<Rightarrow> None | Some h \<Rightarrow> Some (jsRem h 12));
                    hour2 = (case hour1 of None \<Rightarrow> 12 | Some h \<Rightarrow> if h = 0 then 12 else h)
                in numberToString hour2 @ '':'' @ toStringOrUndefined minutes @ '' '' @ ampm))"

text \<open>\<open>s.charAt(0).toUpperCase() + s.slice(1)\<close>.\<close>

definition capitalize :: "string \<Rightarrow> string" where
  "capitalize s = toUpperCase (take 1 s) @ drop 1 s"

text \<open>
  What a button does when clicked, and the elements of an action cell. A button shows
  an icon, a caption, or both.
\<close>

datatype handler =
    OpenAppointmentModal int
  | DeleteAppointment int
  | CancelAppointment int
  | GenerateTicket appointment
  | DeleteHistory int

datatype element =
    Button (onclick: handler) (icon: "string option") (caption: string)
  | Span string

text \<open>
  A row of the admin table. The date cell holds the appointment's date, which the page
  shows through the host's \<open>toLocaleDateString\<close>.
\<close>

record admin_row =
  row_date :: string
  row_time :: string
  row_student :: string
  row_email :: string
  row_service :: string
  row_urgency :: string
  row_urgency_style :: string
  row_status_class :: string
  row_status_label :: string
  row_ai :: bool
  row_buttons :: "element list"

datatype admin_tr = MessageRow string | AppointmentRow admin_row

definition admin_row_of :: "appointment \<Rightarrow> admin_row" where
  "admin_row_of apt =
     (let urg = orElse (urgency apt) ''Low'';
          urgencyClass =
            (if toLowerCase urg = ''urgent'' \<or> toLowerCase urg = ''high''
             then ''color: var(--danger); font-weight:bold;'' else ''color: var(--success);'');
          statusLabel = capitalize (status apt);
          niceTime = admin_formatTime (appointment_time apt);
          isAI = (booking_mode apt = ''ai_chatbot'')
      in \<lparr> row_date = appointment_date apt,
           row_time = niceTime,
           row_student = student_name apt,
           row_email = orElse (student_email apt) '''',
           row_service = orElse (service_type apt) ''General'',
           row_urgency = urg,
           row_urgency_style = urgencyClass,
           row_status_class = status apt,
           row_status_label = statusLabel,
           row_ai = isAI,
           row_buttons =
             [Button (OpenAppointmentModal (apt_id apt)) None ''View'',
              Button (DeleteAppointment (apt_id apt)) (Some ''fa-trash'') ''''] \<rparr>)"

definition admin_displayAppointments :: "appointment list \<Rightarrow> admin_tr list" where
  "admin_displayAppointments data =
     (if length data = 0 then
        [MessageRow ''No appointments found matching these criteria.'']
      else map (\<lambda>apt. AppointmentRow (admin_row_of apt)) data)"

text \<open>\<open>applyFiltersAndSort\<close>: the table body it leaves behind.\<close>

definition applyFiltersAndSort ::
  "(string \<Rightarrow> int option) \<Rightarrow> appointment list \<Rightarrow> string \<Rightarrow> string \<Rightarrow> string \<Rightarrow> admin_tr list" where
  "applyFiltersAndSort dateValue allAppointments statusFilter searchInput sortChoice =
     admin_displayAppointments
       (filteredSorted dateValue allAppointments statusFilter searchInput sortChoice)"

text \<open>
  A card of the student list. The date is shown through the host's \<open>toDateString\<close>.
\<close>

record student_card =
  card_status_class :: string
  card_date :: string
  card_status_label :: string
  card_time :: string
  card_ai_badge :: bool
  card_service :: string
  card_urgency :: string
  card_reason :: string
  card_rejection_note :: "string option"
  card_actions :: "element list"

datatype student_node = Paragraph string | Card student_card

definition actionButtons :: "appointment \<Rightarrow> element list" where
  "actionButtons apt =
     (if status apt = ''pending'' then
        [Button (CancelAppointment (apt_id apt)) None ''Cancel Request'']
      else if status apt = ''approved'' then
        [Button (GenerateTicket apt) (Some ''fa-download'') ''Download Ticket'',
         Button (DeleteHistory (apt_id apt)) None ''Cancel Appointment'']
      else if status apt = ''completed'' then
        [Span ''Visit Completed'',
         Button (DeleteHistory (apt_id apt)) None ''Delete History'']
      else
        [Button (DeleteHistory (apt_id apt)) None ''Delete History''])"

definition student_card_of :: "appointment \<Rightarrow> student_card" where
  "student_card_of apt =
     (let niceTime = student_formatTime (appointment_time apt);
          statusLabel = capitalize (status apt);
          adminNote =
            (if status apt = ''rejected'' \<and> orElse (admin_note apt) '''' \<noteq> ''''
             then admin_note apt else None)
      in \<lparr> card_status_class = status apt,
           card_date = appointment_date apt,
           card_status_label = statusLabel,
           card_time = niceTime,
           card_ai_badge = (booking_mode apt = ''ai_chatbot''),
           card_service = orElse (service_type apt) ''General'',
           card_urgency = orElse (urgency apt) ''Low'',
           card_reason = reason apt,
           card_rejection_note = adminNote,
           card_actions = actionButtons apt \<rparr>)"

definition student_displayAppointments :: "appointment list \<Rightarrow> student_node list" where
  "student_displayAppointments appointments =
     (if length appointments = 0 then [Paragraph ''No appointments found'']
      else map (\<lambda>apt. Card (student_card_of apt)) appointments)"

definition filterAppointments :: "appointment list \<Rightarrow> string \<Rightarrow> student_node list" where
  "filterAppointments allAppointments filter_value =
     student_displayAppointments (studentFiltered allAppointments filter_value)"



section \<open>Requests and responses\<close>

text \<open>
  A parsed JSON value. An object is the list of its properties, one per key. Numbers
  are integers here; the scripts only test a number for truthiness.
\<close>

datatype json =
    JNull
  | JBool bool
  | JNumber int
  | JString string
  | JArray "json list"
  | JObject "(string \<times> json) list"

datatype js_error = TypeError | SyntaxError | NetworkError

text \<open>
  \<open>data.key\<close> for the keys the scripts read (\<open>detail\<close>, \<open>response\<close>, \<open>token\<close>, \<open>role\<close>,
  \<open>user_id\<close>, \<open>full_name\<close>): a \<open>TypeError\<close> on \<open>null\<close>, the property of an object,
  \<open>undefined\<close> (\<open>None\<close>) where there is no such property.
\<close>

definition getProp :: "json \<Rightarrow> string \<Rightarrow> js_error + json option" where
  "getProp data key =
     (case data of
        JNull \<Rightarrow> Inl TypeError
      | JObject props \<Rightarrow> Inr (map_of props key)
      | _ \<Rightarrow> Inr None)"

fun truthy :: "json option \<Rightarrow> bool" where
  "truthy None = False"
| "truthy (Some JNull) = False"
| "truthy (Some (JBool b)) = b"
| "truthy (Some (JNumber n)) = (n \<noteq> 0)"
| "truthy (Some (JString s)) = (s \<noteq> [])"
| "truthy (Some (JArray xs)) = True"
| "truthy (Some (JObject props)) = True"

text \<open>\<open>v || d\<close> on such a value.\<close>

definition orDefault :: "json option \<Rightarrow> json \<Rightarrow> json" where
  "orDefault v d = (case v of None \<Rightarrow> d | Some x \<Rightarrow> if truthy v then x else d)"

text \<open>
  What \<open>await fetch(...)\<close> followed by \<open>await response.json()\<close> can give: the fetch
  throws, or a response arrives with a status and a body, which is \<open>None\<close> when it is
  not JSON (then \<open>response.json()\<close> throws).
\<close>

datatype fetch_result = NetworkFailure | Response nat "json option"

definition ok :: "nat \<Rightarrow> bool" where
  "ok st = (200 \<le> st \<and> st \<le> 299)"

record request =
  req_method :: string
  req_url :: string
  req_headers :: "(string \<times> string) list"
  req_body :: "json option"

record dialog =
  dlg_icon :: string
  dlg_title :: string
  dlg_text :: json
  dlg_timer :: "nat option"

text \<open>
  What a handler does, in order. \<open>Fire d k\<close> opens a dialog and runs \<open>k\<close> when it
  closes (\<open>Swal.fire(...).then(...)\<close>); \<open>SetTimeout k ms\<close> runs \<open>k\<close> after \<open>ms\<close>
  milliseconds.
\<close>

datatype effect =
    StopScanner
  | StartScanner
  | SetInnerHTML string string
  | Fetch request
  | Fire dialog "effect list"
  | SetTimeout "effect list" nat
  | ConsoleError
  | SetItem string "json option"
  | Navigate string

section \<open>Check-in scanner\<close>

definition scanRequest :: "string \<Rightarrow> string \<Rightarrow> request" where
  "scanRequest token appointmentId =
     \<lparr> req_method = ''PUT'',
       req_url = ''/api'' @ ''/appointments/'' @ appointmentId,
       req_headers =
         [(''Content-Type'', ''application/json''), (''Authorization'', ''Bearer '' @ token)],
       req_body =
         Some (JObject [(''status'', JString ''completed''),
                        (''admin_note'', JString ''Verified via QR Scan'')]) \<rparr>"

text \<open>The \<open>catch\<close> block of \<open>onScanSuccess\<close>.\<close>

definition scanCatch :: "effect list" where
  "scanCatch =
     [ConsoleError,
      Fire \<lparr> dlg_icon = ''error'', dlg_title = ''Error'',
             dlg_text = JString ''Connection Error'', dlg_timer = None \<rparr> [],
      SetTimeout [StartScanner] 2000]"

definition onScanSuccess :: "string \<Rightarrow> string \<Rightarrow> fetch_result \<Rightarrow> effect list" where
  "onScanSuccess token decodedText res =
     [StopScanner,
      SetInnerHTML ''scan-result'' (''Processing ID: '' @ decodedText @ ''...''),
      Fetch (scanRequest token decodedText)] @
     (case res of
        NetworkFailure \<Rightarrow> scanCatch
      | Response st body \<Rightarrow>
          (case body of
             None \<Rightarrow> scanCatch
           | Some data \<Rightarrow>
               if ok st then
                 [Fire \<lparr> dlg_icon = ''success'', dlg_title = ''Verified!'',
                         dlg_text = JString (''Student is cleared for entry. (ID: ''
                                             @ decodedText @ '')''),
                         dlg_timer = Some 2500 \<rparr>
                    [SetInnerHTML ''scan-result'' ''Ready for next student.'', StartScanner]]
               else
                 (case getProp data ''detail'' of
                    Inl e \<Rightarrow> scanCatch
                  | Inr detail \<Rightarrow>
                      if detail = Some (JString ''ALREADY_SCANNED'')
                         \<or> detail = Some (JString ''already_scanned'') then
                        [Fire \<lparr> dlg_icon = ''warning'', dlg_title = ''ALREADY USED'',
                                dlg_text = JString ''This ticket has already been scanned!'',
                                dlg_timer = None \<rparr>
                           [StartScanner]]
                      else
                        [Fire \<lparr> dlg_icon = ''error'', dlg_title = ''Error'',
                                dlg_text = orDefault detail (JString ''Server Error''),
                                dlg_timer = None \<rparr> [],
                         SetTimeout [StartScanner] 2000])))"

section \<open>Login\<close>

definition loginRequest :: "string \<Rightarrow> string \<Rightarrow> request" where
  "loginRequest email password =
     \<lparr> req_method = ''POST'',
       req_url = ''http://localhost:8000/api'' @ ''/login'',
       req_headers = [(''Content-Type'', ''application/json'')],
       req_body = Some (JObject [(''email'', JString email), (''password'', JString password)]) \<rparr>"

definition loginCatch :: "effect list" where
  "loginCatch =
     [ConsoleError,
      Fire \<lparr> dlg_icon = ''error'', dlg_title = ''Server Error'',
             dlg_text = JString ''Cannot connect to the server.'', dlg_timer = None \<rparr> []]"

text \<open>The text of the dialog in the \<open>else\<close> branch of the submit handler.\<close>

definition errorText :: "nat \<Rightarrow> json option \<Rightarrow> string" where
  "errorText st detail =
     (if st = 422 then ''Please enter a valid email address format.''
      else (case detail of
              Some (JString s) \<Rightarrow> if truthy detail then s else ''Invalid email or password.''
            | _ \<Rightarrow> ''Invalid email or password.''))"

definition loginSubmit :: "string \<Rightarrow> string \<Rightarrow> fetch_result \<Rightarrow> effect list" where
  "loginSubmit email password res =
     Fetch (loginRequest email password) #
     (case res of
        NetworkFailure \<Rightarrow> loginCatch
      | Response st body \<Rightarrow>
          (case body of
             None \<Rightarrow> loginCatch
           | Some data \<Rightarrow>
               if ok st then
                 (case (getProp data ''token'', getProp data ''role'',
                        getProp data ''user_id'', getProp data ''full_name'') of
                    (Inr tok, Inr rl, Inr uid, Inr nm) \<Rightarrow>
                      [SetItem ''token'' tok, SetItem ''role'' rl, SetItem ''user_id'' uid,
                       SetItem ''full_name'' (Some (orDefault nm (JString ''User''))),
                       Fire \<lparr> dlg_icon = ''success'', dlg_title = ''Signed in successfully'',
                               dlg_text = JString '''', dlg_timer = Some 1500 \<rparr>
                         (if rl = Some (JString ''student'') then
                            [Navigate ''student-dashboard.html'']
                          else if rl = Some (JString ''admin'')
                                  \<or> rl = Some (JString ''super_admin'') then
                            [Navigate ''admin-dashboard.html'']
                          else [])]
                  | _ \<Rightarrow> loginCatch)
               else if st = 422 then
                 [Fire \<lparr> dlg_icon = ''error'', dlg_title = ''Login Failed'',
                         dlg_text = JString (errorText st None), dlg_timer = None \<rparr> []]
               else
                 (case getProp data ''detail'' of
                    Inl e \<Rightarrow> loginCatch
                  | Inr detail \<Rightarrow>
                      [Fire \<lparr> dlg_icon = ''error'', dlg_title = ''Login Failed'',
                              dlg_text = JString (errorText st detail), dlg_timer = None \<rparr> []])))"

section \<open>Student chat\<close>

record chat_entry =
  role :: string
  message :: "json option"

text \<open>
  The chat's state: the array \<open>chatHistory\<close>, the bubbles in \<open>#chat-messages\<close> (class
  and HTML), the requests sent to \<open>/chat\<close> so far, and how many times
  \<open>loadAppointments\<close> has been called from the chat.
\<close>

record chat_state =
  chatHistory :: "chat_entry list"
  chatMessages :: "(string \<times> string) list"
  chatRequests :: "request list"
  reloads :: nat

definition addChatMessage :: "string \<Rightarrow> string \<Rightarrow> chat_state \<Rightarrow> chat_state" where
  "addChatMessage sender msg s =
     s\<lparr> chatMessages := chatMessages s @
          [(sender, concat (map (\<lambda>c. if c = CHR 0x0A then ''<br>'' else [c]) msg))] \<rparr>"

text \<open>\<open>JSON.stringify\<close> of one entry: a property that is \<open>undefined\<close> is left out.\<close>

definition entryJson :: "chat_entry \<Rightarrow> json" where
  "entryJson e =
     JObject ((''role'', JString (role e)) #
              (case message e of None \<Rightarrow> [] | Some v \<Rightarrow> [(''message'', v)]))"

definition chatRequest :: "string \<Rightarrow> string \<Rightarrow> chat_entry list \<Rightarrow> request" where
  "chatRequest token msg history =
     \<lparr> req_method = ''POST'',
       req_url = ''/api'' @ ''/chat'',
       req_headers =
         [(''Content-Type'', ''application/json''), (''Authorization'', ''Bearer '' @ token)],
       req_body =
         Some (JObject [(''message'', JString msg), (''history'', JArray (map entryJson history))]) \<rparr>"

text \<open>
  \<open>sendChatMessage\<close> up to its \<open>await fetch\<close>: \<open>input\<close> is the value of the chat box.
\<close>

definition sendChatMessage :: "string \<Rightarrow> string \<Rightarrow> chat_state \<Rightarrow> chat_state" where
  "sendChatMessage token input s =
     (let msg = trim input
      in if msg = [] then s
         else (let s1 = addChatMessage ''user'' msg s;
                   s2 = s1\<lparr> chatHistory :=
                             chatHistory s1 @ [\<lparr> role = ''user'', message = Some (JString msg) \<rparr>] \<rparr>
               in s2\<lparr> chatRequests :=
                        chatRequests s2 @ [chatRequest token msg (chatHistory s2)] \<rparr>))"

text \<open>The \<open>catch\<close> block of \<open>sendChatMessage\<close>.\<close>

definition chatCatch :: "chat_state \<Rightarrow> chat_state" where
  "chatCatch s = addChatMessage ''bot'' ''Sorry, I encountered an error. Please try again.'' s"

text \<open>\<open>sendChatMessage\<close> from the moment its fetch settles.\<close>

definition receiveChatReply :: "fetch_result \<Rightarrow> chat_state \<Rightarrow> chat_state" where
  "receiveChatReply res s =
     (case res of
        NetworkFailure \<Rightarrow> chatCatch s
      | Response st body \<Rightarrow>
          (case body of
             None \<Rightarrow> chatCatch s
           | Some data \<Rightarrow>
               (case getProp data ''response'' of
                  Inl e \<Rightarrow> chatCatch s
                | Inr v \<Rightarrow>
                    (let s1 = s\<lparr> chatHistory :=
                                  chatHistory s @ [\<lparr> role = ''model'', message = v \<rparr>] \<rparr>
                     in (case v of
                           Some (JString r) \<Rightarrow>
                             (let s2 = addChatMessage ''bot'' r s1
                              in if includes_str (toLowerCase r) ''booked''
                                    \<or> includes_str (toLowerCase r) ''canceled''
                                 then s2\<lparr> reloads := reloads s2 + 1 \<rparr>
                                 else s2)
                         | _ \<Rightarrow> chatCatch s1)))))"

text \<open>
  A chat session is a sequence of events: the student submits the chat box, or a
  pending request settles.
\<close>

datatype chat_event = Submit string | Settle fetch_result

fun chatStep :: "string \<Rightarrow> chat_state \<Rightarrow> chat_event \<Rightarrow> chat_state" where
  "chatStep token s (Submit input) = sendChatMessage token input s"
| "chatStep token s (Settle res) = receiveChatReply res s"

definition chatRun :: "string \<Rightarrow> chat_state \<Rightarrow> chat_event list \<Rightarrow> chat_state" where
  "chatRun token s evs = foldl (chatStep token) s evs"

section \<open>The statements of the specification\<close>

text \<open>
  The status bands as the specification words them: pending 1, approved 2, everything
  else 3.
\<close>

definition claimedBand :: "string \<Rightarrow> nat" where
  "claimedBand s = (if s = ''pending'' then 1 else if s = ''approved'' then 2 else 3)"

text \<open>
  The bands of \<open>statusPriority[s] || 99\<close>: the three closed statuses are 3, and a status
  the table does not have is 99.
\<close>

definition tableBand :: "string \<Rightarrow> nat" where
  "tableBand s =
     (if s = ''pending'' then 1 else if s = ''approved'' then 2
      else if s = ''completed'' \<or> s = ''rejected'' \<or> s = ''canceled'' then 3 else 99)"

text \<open>
  \<open>a\<close> may stand before \<open>b\<close>: its band is not higher, and within one band it is not
  the earlier of the two dates.
\<close>

definition earlier :: "(string \<Rightarrow> int option) \<Rightarrow> appointment \<Rightarrow> appointment \<Rightarrow> bool" where
  "earlier dateValue a b =
     (case (dateValue (appointment_date a), dateValue (appointment_date b)) of
        (Some ta, Some tb) \<Rightarrow> ta < tb
      | _ \<Rightarrow> False)"

definition inOrder ::
  "(string \<Rightarrow> nat) \<Rightarrow> (string \<Rightarrow> int option) \<Rightarrow> appointment \<Rightarrow> appointment \<Rightarrow> bool" where
  "inOrder band dateValue a b =
     (band (status a) \<le> band (status b)
      \<and> (band (status a) = band (status b) \<longrightarrow> \<not> earlier dateValue a b))"

text \<open>
  The category match as the specification words it: the service type contains the
  keyword, case-insensitively, and the lowercased urgency is one of the two synonyms.
\<close>

definition categoryMatch :: "string \<Rightarrow> string \<Rightarrow> string \<Rightarrow> appointment \<Rightarrow> bool" where
  "categoryMatch keyword u1 u2 apt =
     (\<exists>s u. service_type apt = Some s \<and> (\<exists>p q. toLowerCase s = p @ keyword @ q)
            \<and> urgency apt = Some u \<and> (toLowerCase u = u1 \<or> toLowerCase u = u2))"



datatype action =
    Approve | Reject | View | Delete
  | CancelRequest | DownloadTicket | CancelAppointmentAction | DeleteHistoryAction







text \<open>Observations on a handler's effects.\<close>

definition fetches :: "effect list \<Rightarrow> request list" where
  "fetches tr = concat (map (\<lambda>e. case e of Fetch r \<Rightarrow> [r] | _ \<Rightarrow> []) tr)"

definition dialogs :: "effect list \<Rightarrow> (dialog \<times> effect list) list" where
  "dialogs tr = concat (map (\<lambda>e. case e of Fire d k \<Rightarrow> [(d, k)] | _ \<Rightarrow> []) tr)"

definition timeouts :: "effect list \<Rightarrow> (effect list \<times> nat) list" where
  "timeouts tr = concat (map (\<lambda>e. case e of SetTimeout k ms \<Rightarrow> [(k, ms)] | _ \<Rightarrow> []) tr)"

text \<open>
  The three outcomes of a scan as the specification words them. Confirmation: one
  dialog, the success dialog that closes by itself after 2500 ms and then restarts the
  scanner, and no timer. Conflict: one dialog, the warning, which restarts the scanner
  when it closes, and no timer. Backoff: one error dialog, and the scanner restarted
  by a timer of 2000 ms.
\<close>

definition confirmed :: "effect list \<Rightarrow> bool" where
  "confirmed tr =
     ((case dialogs tr of
        [(d, k)] \<Rightarrow> dlg_icon d = ''success'' \<and> dlg_timer d = Some 2500 \<and> StartScanner \<in> set k
      | _ \<Rightarrow> False)
     \<and> timeouts tr = [])"

definition conflict :: "effect list \<Rightarrow> bool" where
  "conflict tr =
     ((case dialogs tr of
        [(d, k)] \<Rightarrow> dlg_icon d = ''warning'' \<and> dlg_timer d = None \<and> k = [StartScanner]
      | _ \<Rightarrow> False)
     \<and> timeouts tr = [])"

definition backoff :: "effect list \<Rightarrow> bool" where
  "backoff tr =
     ((case dialogs tr of
        [(d, k)] \<Rightarrow> dlg_icon d = ''error'' \<and> k = []
      | _ \<Rightarrow> False)
     \<and> timeouts tr = [([StartScanner], 2000)])"

definition alreadyScanned :: "json \<Rightarrow> bool" where
  "alreadyScanned data =
     (getProp data ''detail'' = Inr (Some (JString ''ALREADY_SCANNED''))
      \<or> getProp data ''detail'' = Inr (Some (JString ''already_scanned'')))"

text \<open>
  The login message as the specification words it: the friendly text for status 422,
  otherwise the detail when it is a string, otherwise the generic text.
\<close>

definition claimedErrorText :: "nat \<Rightarrow> json option \<Rightarrow> string" where
  "claimedErrorText st detail =
     (if st = 422 then ''Please enter a valid email address format.''
      else (case detail of
              Some (JString s) \<Rightarrow> s
            | _ \<Rightarrow> ''Invalid email or password.''))"

text \<open>The transcript entries one chat event adds.\<close>

fun appended :: "chat_event \<Rightarrow> chat_entry list" where
  "appended (Submit input) =
     (if trim input = [] then []
      else [\<lparr> role = ''user'', message = Some (JString (trim input)) \<rparr>])"
| "appended (Settle NetworkFailure) = []"
| "appended (Settle (Response st None)) = []"
| "appended (Settle (Response st (Some data))) =
     (case getProp data ''response'' of
        Inl e \<Rightarrow> []
      | Inr v \<Rightarrow> [\<lparr> role = ''model'', message = v \<rparr>])"

text \<open>
  The requests a sequence of chat events sends when the transcript before it is \<open>h\<close>:
  each submit of a text that is not blank sends one request, which carries the text and
  the whole transcript up to and including it.
\<close>

fun requestsOf :: "string \<Rightarrow> chat_entry list \<Rightarrow> chat_event list \<Rightarrow> request list" where
  "requestsOf token h [] = []"
| "requestsOf token h (ev # evs) =
     (case ev of
        Submit input \<Rightarrow>
          if trim input = [] then []
          else [chatRequest token (trim input) (h @ appended ev)]
      | Settle res \<Rightarrow> [])
     @ requestsOf token (h @ appended ev) evs"

text \<open>
  The 12-hour clock as the specification words it: the hour shown for each hour of the
  day (12 for midnight and noon), and the half of the day. \<open>twoDigits\<close> writes an hour
  as the two digits \<open>HH\<close>.
\<close>

definition clockHours :: "(nat \<times> string) list" where
  "clockHours =
     [(0, ''12''), (1, ''1''), (2, ''2''), (3, ''3''), (4, ''4''), (5, ''5''),
      (6, ''6''), (7, ''7''), (8, ''8''), (9, ''9''), (10, ''10''), (11, ''11'')]"

definition clockHour :: "nat \<Rightarrow> string" where
  "clockHour n = (case map_of clockHours (n mod 12) of None \<Rightarrow> [] | Some h \<Rightarrow> h)"

definition meridiem :: "nat \<Rightarrow> string" where
  "meridiem n = (if n < 12 then ''AM'' else ''PM'')"

definition twoDigits :: "nat \<Rightarrow> string" where
  "twoDigits n = [''0123456789'' ! (n div 10), ''0123456789'' ! (n mod 10)]"

definition hoursOfDay :: "nat list" where
  "hoursOfDay =
     [0, 1, 2, 3, 4, 5, 6, 7, 8, 9, 10, 11, 12, 13, 14, 15, 16, 17, 18, 19, 20, 21, 22, 23]"

text \<open>
  An appointment the comparator can order: its date parses, and its status is not the
  name of a property that every object inherits.
\<close>

definition comparable :: "(string \<Rightarrow> int option) \<Rightarrow> appointment \<Rightarrow> bool" where
  "comparable dateValue a =
     (dateValue (appointment_date a) \<noteq> None \<and> status a \<notin> set objectPrototypeKeys)"

text \<open>
  The order the comparator stands for on such appointments: lower band first, and
  within a band the later date first.
\<close>

definition before :: "(string \<Rightarrow> int option) \<Rightarrow> appointment \<Rightarrow> appointment \<Rightarrow> bool" where
  "before dateValue a b =
     (tableBand (status a) < tableBand (status b)
      \<or> (tableBand (status a) = tableBand (status b)
         \<and> (\<exists>ta tb. dateValue (appointment_date a) = Some ta
                    \<and> dateValue (appointment_date b) = Some tb \<and> tb \<le> ta)))"

section \<open>Example data\<close>

text \<open>The store of the specification's scenarios A and B, and a record with a status
  that the priority table does not have.\<close>

definition apt1 :: appointment where
  "apt1 = \<lparr> apt_id = 1, student_name = ''Ana Cruz'', student_email = Some ''ana@evsu.edu.ph'',
            service_type = Some ''Medical Clearance'', urgency = Some ''Urgent'',
            appointment_date = ''2024-01-10'', appointment_time = Some ''09:30:00'',
            reason = ''Clearance for enrolment'', booking_mode = ''standard'',
            status = ''pending'', admin_note = None \<rparr>"

definition apt2 :: appointment where
  "apt2 = \<lparr> apt_id = 2, student_name = ''Ben Reyes'', student_email = None,
            service_type = Some ''Medical Consultation'', urgency = Some ''Urgent'',
            appointment_date = ''2024-01-12'', appointment_time = Some ''13:00'',
            reason = ''Fever'', booking_mode = ''ai_chatbot'',
            status = ''approved'', admin_note = None \<rparr>"

definition apt3 :: appointment where
  "apt3 = \<lparr> apt_id = 3, student_name = ''Carla Diaz'', student_email = None,
            service_type = Some ''Medical Clearance'', urgency = Some ''Normal'',
            appointment_date = ''2024-01-01'', appointment_time = Some ''00:15:00'',
            reason = ''Sports clearance'', booking_mode = ''standard'',
            status = ''completed'', admin_note = Some ''Verified via QR Scan'' \<rparr>"

definition apt4 :: appointment where
  "apt4 = \<lparr> apt_id = 4, student_name = ''Dan Uy'', student_email = None,
            service_type = Some ''Medical Consultation'', urgency = Some ''Normal'',
            appointment_date = ''2024-02-01'', appointment_time = Some ''10:00:00'',
            reason = ''Check-up'', booking_mode = ''standard'',
            status = ''archived'', admin_note = None \<rparr>"

definition apt5 :: appointment where
  "apt5 = \<lparr> apt_id = 5, student_name = ''Eva Lim'', student_email = None,
            service_type = None, urgency = None,
            appointment_date = ''2024-01-05'', appointment_time = None,
            reason = ''Headache'', booking_mode = ''standard'',
            status = ''rejected'', admin_note = Some ''Clinic closed'' \<rparr>"

definition exampleStore :: "appointment list" where
  "exampleStore = [apt1, apt2, apt3]"

definition emptyChat :: chat_state where
  "emptyChat = \<lparr> chatHistory = [], chatMessages = [], chatRequests = [], reloads = 0 \<rparr>"

section \<open>Results\<close>

lemma set_insertSorted: "set (insertSorted f x xs) = insert x (set xs)"
  by (induction xs) auto

lemma set_sortWith: "set (sortWith f xs) = set xs"
  by (induction xs) (auto simp: set_insertSorted)

subsection \<open>Substrings\<close>

lemma startsWith_iff: "startsWith s t \<longleftrightarrow> (\<exists>q. s = t @ q)"
  by (induction s t rule: startsWith.induct) auto

lemma includes_str_iff: "includes_str s t \<longleftrightarrow> (\<exists>p q. s = p @ t @ q)"
proof (induction s)
  case Nil
  show ?case by simp
next
  case (Cons c s)
  show ?case
  proof
    assume "includes_str (c # s) t"
    then consider "startsWith (c # s) t" | "includes_str s t" by auto
    then show "\<exists>p q. c # s = p @ t @ q"
    proof cases
      case 1
      then obtain q where "c # s = t @ q" using startsWith_iff by blast
      then have "c # s = [] @ t @ q" by simp
      then show ?thesis by blast
    next
      case 2
      then obtain p q where "s = p @ t @ q" using Cons.IH by blast
      then have "c # s = (c # p) @ t @ q" by simp
      then show ?thesis by blast
    qed
  next
    assume "\<exists>p q. c # s = p @ t @ q"
    then obtain p q where pq: "c # s = p @ t @ q" by blast
    show "includes_str (c # s) t"
    proof (cases p)
      case Nil
      with pq have "startsWith (c # s) t" using startsWith_iff by auto
      then show ?thesis by simp
    next
      case (Cons d p')
      with pq have "s = p' @ t @ q" by simp
      then have "includes_str s t" using Cons.IH by blast
      then show ?thesis by simp
    qed
  qed
qed

subsection \<open>The sort\<close>

lemma set_filteredSorted:
  "set (filteredSorted dateValue store statusFilter searchInput sortChoice) =
     {apt \<in> set store. filterPredicate statusFilter searchInput sortChoice apt}"
  by (simp add: filteredSorted_def set_sortWith)

lemma priorityOf_tableBand:
  "s \<notin> set objectPrototypeKeys \<Longrightarrow> priorityOf s = Number (tableBand s)"
  by (simp add: priorityOf_def tableBand_def statusPriority_def)

lemma sortCompare_comparable:
  assumes "dv (appointment_date a) = Some ta" "dv (appointment_date b) = Some tb"
    "status a \<notin> set objectPrototypeKeys" "status b \<notin> set objectPrototypeKeys"
  shows "sortCompare (compareFn dv) a b =
     (if tableBand (status a) \<noteq> tableBand (status b)
      then int (tableBand (status a)) - int (tableBand (status b)) else tb - ta)"
  using assms by (simp add: sortCompare_def compareFn_def priorityOf_tableBand)

lemma sorted_insertSorted:
  assumes tot: "\<And>a b. a \<in> S \<Longrightarrow> b \<in> S \<Longrightarrow> \<not> sortCompare f a b \<le> 0 \<Longrightarrow> P b a"
    and le: "\<And>a b. a \<in> S \<Longrightarrow> b \<in> S \<Longrightarrow> sortCompare f a b \<le> 0 \<Longrightarrow> P a b"
    and tr: "\<And>a b c. a \<in> S \<Longrightarrow> b \<in> S \<Longrightarrow> c \<in> S \<Longrightarrow> P a b \<Longrightarrow> P b c \<Longrightarrow> P a c"
    and x: "x \<in> S"
  shows "set xs \<subseteq> S \<Longrightarrow> sorted_wrt P xs \<Longrightarrow> sorted_wrt P (insertSorted f x xs)"
proof (induction xs)
  case Nil
  show ?case by simp
next
  case (Cons y ys)
  from Cons.prems have y: "y \<in> S" and ys: "set ys \<subseteq> S"
    and yz: "\<forall>z\<in>set ys. P y z" and sys: "sorted_wrt P ys"
    by simp_all
  show ?case
  proof (cases "sortCompare f x y \<le> 0")
    case True
    have xy: "P x y" using x y True by (rule le)
    have "\<forall>z\<in>set ys. P x z"
    proof
      fix z assume z: "z \<in> set ys"
      then have "z \<in> S" using ys by blast
      moreover have "P y z" using yz z by blast
      ultimately show "P x z" using x y xy tr by blast
    qed
    with True xy yz sys show ?thesis by simp
  next
    case False
    have yx: "P y x" using x y False by (rule tot)
    have "sorted_wrt P (insertSorted f x ys)" using ys sys by (rule Cons.IH)
    with False yx yz show ?thesis by (simp add: set_insertSorted)
  qed
qed

lemma sorted_sortWith:
  assumes tot: "\<And>a b. a \<in> S \<Longrightarrow> b \<in> S \<Longrightarrow> \<not> sortCompare f a b \<le> 0 \<Longrightarrow> P b a"
    and le: "\<And>a b. a \<in> S \<Longrightarrow> b \<in> S \<Longrightarrow> sortCompare f a b \<le> 0 \<Longrightarrow> P a b"
    and tr: "\<And>a b c. a \<in> S \<Longrightarrow> b \<in> S \<Longrightarrow> c \<in> S \<Longrightarrow> P a b \<Longrightarrow> P b c \<Longrightarrow> P a c"
  shows "set xs \<subseteq> S \<Longrightarrow> sorted_wrt P (sortWith f xs)"
proof (induction xs)
  case Nil
  show ?case by simp
next
  case (Cons x xs)
  from Cons.prems have x: "x \<in> S" and xs: "set xs \<subseteq> S" by simp_all
  have 1: "set (sortWith f xs) \<subseteq> S" using xs by (simp add: set_sortWith)
  have 2: "sorted_wrt P (sortWith f xs)" using xs by (rule Cons.IH)
  have "sorted_wrt P (insertSorted f x (sortWith f xs))"
    using tot le tr x 1 2 by (rule sorted_insertSorted)
  then show ?case by simp
qed

lemma sortCompare_before:
  assumes "comparable dv a" "comparable dv b"
  shows "(sortCompare (compareFn dv) a b \<le> 0) = before dv a b"
proof -
  from assms obtain ta tb where v: "dv (appointment_date a) = Some ta"
    "dv (appointment_date b) = Some tb"
    "status a \<notin> set objectPrototypeKeys" "status b \<notin> set objectPrototypeKeys"
    by (auto simp: comparable_def)
  show ?thesis
  proof (cases "tableBand (status a) = tableBand (status b)")
    case True
    then show ?thesis by (simp add: sortCompare_comparable[OF v] before_def v)
  next
    case False
    then show ?thesis by (simp add: sortCompare_comparable[OF v] before_def) linarith
  qed
qed

lemma before_total:
  assumes "comparable dv a" "comparable dv b" "\<not> before dv a b"
  shows "before dv b a"
proof -
  from assms obtain ta tb where v: "dv (appointment_date a) = Some ta"
    "dv (appointment_date b) = Some tb"
    by (auto simp: comparable_def)
  from assms(3) show ?thesis unfolding before_def v by simp linarith
qed

lemma before_trans:
  assumes "before dv a b" "before dv b c"
  shows "before dv a c"
proof -
  consider "tableBand (status a) < tableBand (status b)"
    | "tableBand (status a) = tableBand (status b)" "tableBand (status b) < tableBand (status c)"
    | "tableBand (status a) = tableBand (status b)" "tableBand (status b) = tableBand (status c)"
    using assms unfolding before_def by linarith
  then show ?thesis
  proof cases
    case 1
    with assms(2) show ?thesis unfolding before_def by linarith
  next
    case 2
    then show ?thesis unfolding before_def by simp
  next
    case 3
    with assms obtain ta tb tb' tc where
      "dv (appointment_date a) = Some ta" "dv (appointment_date b) = Some tb" "tb \<le> ta"
      "dv (appointment_date b) = Some tb'" "dv (appointment_date c) = Some tc" "tc \<le> tb'"
      unfolding before_def by auto
    with 3 show ?thesis unfolding before_def by simp
  qed
qed

lemma sorted_before:
  assumes "\<forall>a\<in>set xs. comparable dv a"
  shows "sorted_wrt (before dv) (sortWith (compareFn dv) xs)"
proof (rule sorted_sortWith[where S = "{a. comparable dv a}"])
  fix a b assume ab: "a \<in> {a. comparable dv a}" "b \<in> {a. comparable dv a}"
  { assume "\<not> sortCompare (compareFn dv) a b \<le> 0"
    with ab show "before dv b a" by (simp add: sortCompare_before before_total) }
  { assume "sortCompare (compareFn dv) a b \<le> 0"
    with ab show "before dv a b" by (simp add: sortCompare_before) }
next
  fix a b c assume "before dv a b" "before dv b c"
  then show "before dv a c" by (rule before_trans)
next
  show "set xs \<subseteq> {a. comparable dv a}" using assms by auto
qed

lemma before_inOrder: "before dv a b \<Longrightarrow> inOrder tableBand dv a b"
  by (auto simp: before_def inOrder_def earlier_def)

subsection \<open>Evaluating the examples\<close>

lemmas string_evals =
  toLowerCase_def lowerChar_def toUpperCase_def upperChar_def orElse_def

lemmas date_evals =
  isoDateValue_def isDigit_def digitOf_def digitsValue_def daysInMonth_def daysFromCivil_def

lemma example_dates:
  "isoDateValue ''2024-01-10'' = Some 1704844800000"
  "isoDateValue ''2024-01-12'' = Some 1705017600000"
  "isoDateValue ''2024-01-01'' = Some 1704067200000"
  "isoDateValue ''2024-02-01'' = Some 1706745600000"
  "isoDateValue ''2024-01-05'' = Some 1704412800000"
  by (simp_all add: date_evals)

lemmas example_defs = exampleStore_def apt1_def apt2_def apt3_def apt4_def apt5_def

lemmas sort_evals =
  filteredSorted_def filterPredicate_def matchesType_def compareFn_def sortCompare_def
  priorityOf_def statusPriority_def objectPrototypeKeys_def

text \<open>Scenarios A and B of the specification.\<close>

lemma scenario_A:
  "map apt_id (filteredSorted isoDateValue exampleStore ''all'' [] ''all'') = [1, 2, 3]"
  by (simp add: sort_evals example_defs example_dates string_evals)

lemma scenario_B:
  "map apt_id (filteredSorted isoDateValue exampleStore ''approved'' [] ''all'') = [2]"
  by (simp add: sort_evals example_defs example_dates string_evals)

subsection \<open>The category predicate\<close>

lemma orElse_empty_iff:
  "(\<exists>p q. toLowerCase (orElse x []) = p @ k @ q) \<longleftrightarrow>
     (\<exists>s. x = Some s \<and> (\<exists>p q. toLowerCase s = p @ k @ q)) \<or> (k = [] \<and> (x = None \<or> x = Some []))"
  by (cases x) (auto simp: orElse_def toLowerCase_def)

lemma orElse_empty_eq:
  "k \<noteq> [] \<Longrightarrow> toLowerCase (orElse x []) = k \<longleftrightarrow> (\<exists>u. x = Some u \<and> toLowerCase u = k)"
  by (cases x) (auto simp: orElse_def toLowerCase_def)

lemma matchesType_cases:
  "matchesType sc apt =
     (let service = toLowerCase (orElse (service_type apt) []);
          urg = toLowerCase (orElse (urgency apt) [])
      in (sc = ''clearance-urgent'' \<longrightarrow>
             includes_str service ''clearance'' \<and> (urg = ''urgent'' \<or> urg = ''high''))
       \<and> (sc = ''consultation-urgent'' \<longrightarrow>
             includes_str service ''consultation'' \<and> (urg = ''urgent'' \<or> urg = ''high''))
       \<and> (sc = ''clearance-normal'' \<longrightarrow>
             includes_str service ''clearance'' \<and> (urg = ''normal'' \<or> urg = ''low''))
       \<and> (sc = ''consultation-normal'' \<longrightarrow>
             includes_str service ''consultation'' \<and> (urg = ''normal'' \<or> urg = ''low'')))"
  by (simp add: matchesType_def Let_def)

lemma categoryMatch_iff:
  assumes "keyword \<noteq> []" "u1 \<noteq> []" "u2 \<noteq> []"
  shows "categoryMatch keyword u1 u2 apt \<longleftrightarrow>
     includes_str (toLowerCase (orElse (service_type apt) [])) keyword
     \<and> (toLowerCase (orElse (urgency apt) []) = u1 \<or> toLowerCase (orElse (urgency apt) []) = u2)"
  using assms
  by (simp add: categoryMatch_def includes_str_iff orElse_empty_iff orElse_empty_eq) blast

subsection \<open>The claims\<close>

text \<open>
  C1. Whatever the store and the filter state, every appointment in the list the admin
  pipeline displays is a record of the store, has the selected status unless the
  selection is \<open>all\<close>, has the lowercased search term as a substring of its lowercased
  student name, and satisfies the category predicate of the sort choice; every
  appointment in the list the student filter displays is a record of the store and
  has the selected status unless the selection is \<open>all\<close>.
\<close>

theorem display_lists_satisfy_filters:
  "(\<forall>apt \<in> set (filteredSorted dateValue store statusFilter searchInput sortChoice).
      apt \<in> set store
      \<and> (statusFilter = ''all'' \<or> status apt = statusFilter)
      \<and> (\<exists>p q. toLowerCase (student_name apt) = p @ toLowerCase searchInput @ q)
      \<and> matchesType sortChoice apt)
   \<and> (\<forall>apt \<in> set (studentFiltered store filter_value).
        apt \<in> set store \<and> (filter_value = ''all'' \<or> status apt = filter_value))"
proof -
  have admin: "\<forall>apt \<in> set (filteredSorted dateValue store statusFilter searchInput sortChoice).
      apt \<in> set store
      \<and> (statusFilter = ''all'' \<or> status apt = statusFilter)
      \<and> (\<exists>p q. toLowerCase (student_name apt) = p @ toLowerCase searchInput @ q)
      \<and> matchesType sortChoice apt"
  proof
    fix apt
    assume "apt \<in> set (filteredSorted dateValue store statusFilter searchInput sortChoice)"
    then have "apt \<in> set store"
      and "filterPredicate statusFilter searchInput sortChoice apt"
      by (simp_all add: set_filteredSorted)
    then show "apt \<in> set store
        \<and> (statusFilter = ''all'' \<or> status apt = statusFilter)
        \<and> (\<exists>p q. toLowerCase (student_name apt) = p @ toLowerCase searchInput @ q)
        \<and> matchesType sortChoice apt"
      by (simp add: filterPredicate_def includes_str_iff)
  qed
  have student: "\<forall>apt \<in> set (studentFiltered store filter_value).
        apt \<in> set store \<and> (filter_value = ''all'' \<or> status apt = filter_value)"
  proof
    fix apt
    assume "apt \<in> set (studentFiltered store filter_value)"
    then show "apt \<in> set store \<and> (filter_value = ''all'' \<or> status apt = filter_value)"
      by (cases "filter_value = ''all''") (simp_all add: studentFiltered_def)
  qed
  from admin student show ?thesis by (rule conjI)
qed

theorem display_lists_satisfy_filters_witness:
  "apt2 \<in> set (filteredSorted isoDateValue exampleStore ''approved'' ''REY'' ''consultation-urgent'')
   \<and> apt2 \<in> set exampleStore
   \<and> status apt2 = ''approved''
   \<and> (\<exists>p q. toLowerCase (student_name apt2) = p @ toLowerCase ''REY'' @ q)
   \<and> matchesType ''consultation-urgent'' apt2
   \<and> apt2 \<in> set (studentFiltered exampleStore ''approved'')"
proof -
  have 1: "apt2 \<in> set (filteredSorted isoDateValue exampleStore ''approved'' ''REY''
                          ''consultation-urgent'')"
    by (simp add: set_filteredSorted filterPredicate_def matchesType_def example_defs string_evals)
  have 2: "apt2 \<in> set (studentFiltered exampleStore ''approved'')"
    by (simp add: studentFiltered_def example_defs)
  from 1 2 display_lists_satisfy_filters
    [of isoDateValue exampleStore "''approved''" "''REY''" "''consultation-urgent''" "''approved''"]
  show ?thesis by blast
qed

text \<open>
  C5. Each of the four compound sort choices passes an appointment exactly when its
  service type contains the category keyword case-insensitively and its lowercased
  urgency is one of the category's two synonyms; any other sort choice passes every
  appointment. Under \<open>clearance-urgent\<close> a record with service type
  \<open>Medical Clearance\<close> and urgency \<open>Urgent\<close> passes, and one with service type
  \<open>Medical Consultation\<close> and urgency \<open>Urgent\<close> does not.
\<close>

theorem category_predicate:
  "(matchesType ''clearance-urgent'' apt = categoryMatch ''clearance'' ''urgent'' ''high'' apt)
   \<and> (matchesType ''consultation-urgent'' apt = categoryMatch ''consultation'' ''urgent'' ''high'' apt)
   \<and> (matchesType ''clearance-normal'' apt = categoryMatch ''clearance'' ''normal'' ''low'' apt)
   \<and> (matchesType ''consultation-normal'' apt = categoryMatch ''consultation'' ''normal'' ''low'' apt)
   \<and> (sortChoice \<notin> {''clearance-urgent'', ''consultation-urgent'', ''clearance-normal'',
                      ''consultation-normal''} \<longrightarrow> matchesType sortChoice apt)
   \<and> matchesType ''clearance-urgent''
        (apt\<lparr> service_type := Some ''Medical Clearance'', urgency := Some ''Urgent'' \<rparr>)
   \<and> \<not> matchesType ''clearance-urgent''
        (apt\<lparr> service_type := Some ''Medical Consultation'', urgency := Some ''Urgent'' \<rparr>)"
proof -
  have 1: "matchesType ''clearance-urgent'' apt = categoryMatch ''clearance'' ''urgent'' ''high'' apt"
    by (simp add: matchesType_cases Let_def categoryMatch_iff)
  have 2: "matchesType ''consultation-urgent'' apt
             = categoryMatch ''consultation'' ''urgent'' ''high'' apt"
    by (simp add: matchesType_cases Let_def categoryMatch_iff)
  have 3: "matchesType ''clearance-normal'' apt = categoryMatch ''clearance'' ''normal'' ''low'' apt"
    by (simp add: matchesType_cases Let_def categoryMatch_iff)
  have 4: "matchesType ''consultation-normal'' apt
             = categoryMatch ''consultation'' ''normal'' ''low'' apt"
    by (simp add: matchesType_cases Let_def categoryMatch_iff)
  have 5: "sortChoice \<notin> {''clearance-urgent'', ''consultation-urgent'', ''clearance-normal'',
                      ''consultation-normal''} \<longrightarrow> matchesType sortChoice apt"
    by (simp add: matchesType_cases Let_def)
  have 6: "matchesType ''clearance-urgent''
        (apt\<lparr> service_type := Some ''Medical Clearance'', urgency := Some ''Urgent'' \<rparr>)"
    by (simp add: matchesType_def string_evals)
  have 7: "\<not> matchesType ''clearance-urgent''
        (apt\<lparr> service_type := Some ''Medical Consultation'', urgency := Some ''Urgent'' \<rparr>)"
    by (simp add: matchesType_def string_evals)
  from 1 2 3 4 5 6 7 show ?thesis by blast
qed

theorem category_predicate_witness:
  "''all'' \<notin> {''clearance-urgent'', ''consultation-urgent'', ''clearance-normal'',
                ''consultation-normal''}
   \<and> matchesType ''all'' apt3
   \<and> matchesType ''clearance-normal'' apt3
   \<and> categoryMatch ''clearance'' ''normal'' ''low'' apt3
   \<and> \<not> matchesType ''clearance-urgent'' apt3"
proof -
  have "\<not> matchesType ''clearance-urgent'' apt3"
    by (simp add: matchesType_def string_evals example_defs)
  moreover have "matchesType ''clearance-normal'' apt3"
    by (simp add: matchesType_def string_evals example_defs)
  moreover have "''all'' \<notin> {''clearance-urgent'', ''consultation-urgent'', ''clearance-normal'',
                ''consultation-normal''}" by simp
  ultimately show ?thesis using category_predicate[of apt3 "''all''"] by blast
qed

text \<open>
  C2, as amended. When every appointment of the store has a date that parses and a
  status that is not the name of an inherited object property, the admin view's list
  is ordered, for every pair of its records, by band ascending and within a band by
  date descending, where the bands are those of the comparator: pending 1, approved
  2, completed, rejected and canceled 3, and every other status 99.
\<close>

theorem admin_sort_order:
  assumes "\<forall>a \<in> set store. comparable dateValue a"
  shows "sorted_wrt (inOrder tableBand dateValue)
           (filteredSorted dateValue store statusFilter searchInput sortChoice)
         \<and> (\<forall>a \<in> set store. priorityOf (status a) = Number (tableBand (status a)))"
proof -
  let ?kept = "filter (filterPredicate statusFilter searchInput sortChoice) store"
  from assms have "\<forall>a \<in> set ?kept. comparable dateValue a" by simp
  then have "sorted_wrt (before dateValue) (sortWith (compareFn dateValue) ?kept)"
    by (rule sorted_before)
  then have "sorted_wrt (inOrder tableBand dateValue) (sortWith (compareFn dateValue) ?kept)"
    by (rule sorted_wrt_mono_rel[rotated]) (rule before_inOrder)
  moreover have "\<forall>a \<in> set store. priorityOf (status a) = Number (tableBand (status a))"
    using assms by (simp add: comparable_def priorityOf_tableBand)
  ultimately show ?thesis by (simp add: filteredSorted_def)
qed

theorem admin_sort_order_witness:
  "list_all (comparable isoDateValue) [apt3, apt5, apt2, apt4, apt1]
   \<and> filteredSorted isoDateValue [apt3, apt5, apt2, apt4, apt1] ''all'' [] ''all''
       = [apt1, apt2, apt5, apt3, apt4]
   \<and> sorted_wrt (inOrder tableBand isoDateValue) [apt1, apt2, apt5, apt3, apt4]
   \<and> priorityOf (status apt4) = Number 99"
proof -
  have h: "\<forall>a \<in> set [apt3, apt5, apt2, apt4, apt1]. comparable isoDateValue a"
    by (simp add: comparable_def example_defs example_dates objectPrototypeKeys_def)
  have e: "filteredSorted isoDateValue [apt3, apt5, apt2, apt4, apt1] ''all'' [] ''all''
       = [apt1, apt2, apt5, apt3, apt4]"
    by (simp add: sort_evals example_defs example_dates string_evals)
  have p: "priorityOf (status apt4) = Number 99"
    by (simp add: sort_evals example_defs)
  from h have l: "list_all (comparable isoDateValue) [apt3, apt5, apt2, apt4, apt1]"
    by (simp only: list_all_iff)
  from admin_sort_order[OF h, of "''all''" "[]" "''all''"] l e p show ?thesis by simp
qed

text \<open>
  C2 as the specification words it, with every unrecognized status in band 3, fails:
  a record with the status \<open>archived\<close> and the later date is displayed after a
  completed record with the earlier date.
\<close>

theorem unrecognized_status_counterexample:
  "filteredSorted isoDateValue [apt4, apt3] ''all'' [] ''all'' = [apt3, apt4]
   \<and> status apt3 = ''completed'' \<and> status apt4 = ''archived''
   \<and> claimedBand (status apt3) = claimedBand (status apt4)
   \<and> earlier isoDateValue apt3 apt4
   \<and> \<not> sorted_wrt (inOrder claimedBand isoDateValue)
         (filteredSorted isoDateValue [apt4, apt3] ''all'' [] ''all'')"
  by (simp add: sort_evals example_defs example_dates string_evals inOrder_def
      claimedBand_def earlier_def)

subsection \<open>Time formatting\<close>

lemma formatTime_agree: "admin_formatTime t = student_formatTime t"
proof (cases t)
  case None
  then show ?thesis by (simp add: admin_formatTime_def student_formatTime_def)
next
  case (Some s)
  show ?thesis
  proof (cases "split_str CHR '':'' s")
    case Nil
    with Some show ?thesis
      by (simp add: admin_formatTime_def student_formatTime_def index_def Let_def)
  next
    case (Cons h rest)
    note outer = this
    show ?thesis
    proof (cases rest)
      case Nil
      with Some outer show ?thesis
        by (simp add: admin_formatTime_def student_formatTime_def index_def Let_def)
    next
      case (Cons m rest')
      with Some outer show ?thesis
        by (simp add: admin_formatTime_def student_formatTime_def index_def Let_def)
    qed
  qed
qed

lemma split_str_no_sep: "sep \<notin> set m \<Longrightarrow> split_str sep m = [m]"
  by (induction m) auto

lemma split_str_append:
  "sep \<notin> set a \<Longrightarrow> split_str sep (a @ sep # b) = a # split_str sep b"
  by (induction a) auto

lemma parseInt_examples: "parseInt ''00'' = Some 0" "parseInt ''12'' = Some 12"
  by (simp_all add: parseInt_def isWhiteSpace_def isDigit_def digitOf_def digitsValue_def)

lemma admin_formatTime_parts:
  assumes "CHR '':'' \<notin> set h" "CHR '':'' \<notin> set m" "h \<noteq> []" "parseInt h = Some n"
  shows "admin_formatTime (Some (h @ '':'' @ m)) =
           numberToString (if jsRem n 12 = 0 then 12 else jsRem n 12) @ '':'' @ m @ '' ''
             @ (if n \<ge> 12 then ''PM'' else ''AM'')"
    and "admin_formatTime (Some (h @ '':'' @ m @ '':'' @ sec)) =
           numberToString (if jsRem n 12 = 0 then 12 else jsRem n 12) @ '':'' @ m @ '' ''
             @ (if n \<ge> 12 then ''PM'' else ''AM'')"
proof -
  have 1: "split_str CHR '':'' (h @ '':'' @ m) = [h, m]"
    using assms by (simp add: split_str_append split_str_no_sep)
  obtain ps where "split_str CHR '':'' sec = ps" by blast
  then have 2: "split_str CHR '':'' (h @ '':'' @ m @ '':'' @ sec) = h # m # ps"
    using assms by (simp add: split_str_append)
  show "admin_formatTime (Some (h @ '':'' @ m)) =
           numberToString (if jsRem n 12 = 0 then 12 else jsRem n 12) @ '':'' @ m @ '' ''
             @ (if n \<ge> 12 then ''PM'' else ''AM'')"
    using assms 1 by (simp add: admin_formatTime_def index_def Let_def toStringOrUndefined_def)
  show "admin_formatTime (Some (h @ '':'' @ m @ '':'' @ sec)) =
           numberToString (if jsRem n 12 = 0 then 12 else jsRem n 12) @ '':'' @ m @ '' ''
             @ (if n \<ge> 12 then ''PM'' else ''AM'')"
    using assms 2 by (simp add: admin_formatTime_def index_def Let_def toStringOrUndefined_def)
qed

lemma hours_of_day: "(n::nat) < 24 \<Longrightarrow> n \<in> set hoursOfDay"
  unfolding hoursOfDay_def by (simp only: list.set insert_iff empty_iff simp_thms) presburger

lemma hour_table_digits:
  "list_all (\<lambda>n. CHR '':'' \<notin> set (twoDigits n) \<and> twoDigits n \<noteq> []) hoursOfDay"
  by (simp add: hoursOfDay_def twoDigits_def)

lemma hour_table_parse:
  "list_all (\<lambda>n. parseInt (twoDigits n) = Some (int n)) hoursOfDay"
  by (simp add: hoursOfDay_def twoDigits_def parseInt_def isWhiteSpace_def isDigit_def
      digitOf_def digitsValue_def)

lemma hour_table_clock:
  "list_all (\<lambda>n. numberToString (if jsRem (int n) 12 = 0 then 12 else jsRem (int n) 12)
                    = clockHour n
                  \<and> (if 12 \<le> int n then ''PM'' else ''AM'') = meridiem n) hoursOfDay"
  by (simp add: hoursOfDay_def jsRem_def numberToString_def clockHour_def clockHours_def
      meridiem_def)

lemma hour_part:
  assumes "n < 24"
  shows "CHR '':'' \<notin> set (twoDigits n)"
    and "twoDigits n \<noteq> []"
    and "parseInt (twoDigits n) = Some (int n)"
    and "numberToString (if jsRem (int n) 12 = 0 then 12 else jsRem (int n) 12) = clockHour n"
    and "(if 12 \<le> int n then ''PM'' else ''AM'') = meridiem n"
  using hours_of_day[OF assms] hour_table_digits hour_table_parse hour_table_clock
  unfolding list_all_iff by blast+

lemma formatTime_clock:
  assumes "n < 24" "CHR '':'' \<notin> set m"
  shows "admin_formatTime (Some (twoDigits n @ '':'' @ m))
           = clockHour n @ '':'' @ m @ '' '' @ meridiem n"
    and "admin_formatTime (Some (twoDigits n @ '':'' @ m @ '':'' @ sec))
           = clockHour n @ '':'' @ m @ '' '' @ meridiem n"
  using admin_formatTime_parts(1)[OF hour_part(1)[OF assms(1)] assms(2) hour_part(2,3)[OF assms(1)]]
        admin_formatTime_parts(2)[OF hour_part(1)[OF assms(1)] assms(2) hour_part(2,3)[OF assms(1)],
          of sec]
        hour_part(4,5)[OF assms(1)]
  by simp_all

text \<open>
  C10. The \<open>formatTime\<close> of the admin dashboard and the \<open>formatTime\<close> of the student
  dashboard return the same string for every input, missing and empty included (both
  give the empty string). For a time \<open>HH:MM\<close> or \<open>HH:MM:SS\<close> with an hour from 00 to 23
  the string is the hour of the 12-hour clock (1 to 12, without a leading zero), a
  colon, the minutes as given, a space and \<open>AM\<close> for the hours before 12, \<open>PM\<close> from 12
  on. In particular the hour part \<open>00\<close> gives \<open>12\<close> and \<open>AM\<close>, and the hour part \<open>12\<close>
  gives \<open>12\<close> and \<open>PM\<close>.
\<close>

theorem formatTime_equal:
  "admin_formatTime t = student_formatTime t
   \<and> student_formatTime None = '''' \<and> student_formatTime (Some '''') = ''''
   \<and> (CHR '':'' \<notin> set m \<longrightarrow>
        student_formatTime (Some (''00:'' @ m)) = ''12:'' @ m @ '' AM''
        \<and> student_formatTime (Some (''00:'' @ m @ '':'' @ sec)) = ''12:'' @ m @ '' AM''
        \<and> student_formatTime (Some (''12:'' @ m)) = ''12:'' @ m @ '' PM''
        \<and> student_formatTime (Some (''12:'' @ m @ '':'' @ sec)) = ''12:'' @ m @ '' PM'')
   \<and> (n < 24 \<and> CHR '':'' \<notin> set m \<longrightarrow>
        admin_formatTime (Some (twoDigits n @ '':'' @ m))
          = clockHour n @ '':'' @ m @ '' '' @ meridiem n
        \<and> admin_formatTime (Some (twoDigits n @ '':'' @ m @ '':'' @ sec))
          = clockHour n @ '':'' @ m @ '' '' @ meridiem n
        \<and> student_formatTime (Some (twoDigits n @ '':'' @ m))
          = clockHour n @ '':'' @ m @ '' '' @ meridiem n
        \<and> student_formatTime (Some (twoDigits n @ '':'' @ m @ '':'' @ sec))
          = clockHour n @ '':'' @ m @ '' '' @ meridiem n)"
proof -
  have e: "student_formatTime None = '''' \<and> student_formatTime (Some '''') = ''''"
    by (simp add: student_formatTime_def)
  have r: "CHR '':'' \<notin> set m \<longrightarrow>
        student_formatTime (Some (''00:'' @ m)) = ''12:'' @ m @ '' AM''
        \<and> student_formatTime (Some (''00:'' @ m @ '':'' @ sec)) = ''12:'' @ m @ '' AM''
        \<and> student_formatTime (Some (''12:'' @ m)) = ''12:'' @ m @ '' PM''
        \<and> student_formatTime (Some (''12:'' @ m @ '':'' @ sec)) = ''12:'' @ m @ '' PM''"
  proof
    assume m: "CHR '':'' \<notin> set m"
    have z: "CHR '':'' \<notin> set ''00''" "CHR '':'' \<notin> set ''12''" "''00'' \<noteq> []" "''12'' \<noteq> []"
      by simp_all
    from admin_formatTime_parts(1)[OF z(1) m z(3) parseInt_examples(1)]
         admin_formatTime_parts(2)[OF z(1) m z(3) parseInt_examples(1), of sec]
         admin_formatTime_parts(1)[OF z(2) m z(4) parseInt_examples(2)]
         admin_formatTime_parts(2)[OF z(2) m z(4) parseInt_examples(2), of sec]
    show "student_formatTime (Some (''00:'' @ m)) = ''12:'' @ m @ '' AM''
        \<and> student_formatTime (Some (''00:'' @ m @ '':'' @ sec)) = ''12:'' @ m @ '' AM''
        \<and> student_formatTime (Some (''12:'' @ m)) = ''12:'' @ m @ '' PM''
        \<and> student_formatTime (Some (''12:'' @ m @ '':'' @ sec)) = ''12:'' @ m @ '' PM''"
      by (simp add: formatTime_agree jsRem_def numberToString_def)
  qed
  have c: "n < 24 \<and> CHR '':'' \<notin> set m \<longrightarrow>
        admin_formatTime (Some (twoDigits n @ '':'' @ m))
          = clockHour n @ '':'' @ m @ '' '' @ meridiem n
        \<and> admin_formatTime (Some (twoDigits n @ '':'' @ m @ '':'' @ sec))
          = clockHour n @ '':'' @ m @ '' '' @ meridiem n
        \<and> student_formatTime (Some (twoDigits n @ '':'' @ m))
          = clockHour n @ '':'' @ m @ '' '' @ meridiem n
        \<and> student_formatTime (Some (twoDigits n @ '':'' @ m @ '':'' @ sec))
          = clockHour n @ '':'' @ m @ '' '' @ meridiem n"
  proof
    assume "n < 24 \<and> CHR '':'' \<notin> set m"
    then have n: "n < 24" and m: "CHR '':'' \<notin> set m" by simp_all
    from formatTime_clock(1)[OF n m] formatTime_clock(2)[OF n m, of sec]
    show "admin_formatTime (Some (twoDigits n @ '':'' @ m))
          = clockHour n @ '':'' @ m @ '' '' @ meridiem n
        \<and> admin_formatTime (Some (twoDigits n @ '':'' @ m @ '':'' @ sec))
          = clockHour n @ '':'' @ m @ '' '' @ meridiem n
        \<and> student_formatTime (Some (twoDigits n @ '':'' @ m))
          = clockHour n @ '':'' @ m @ '' '' @ meridiem n
        \<and> student_formatTime (Some (twoDigits n @ '':'' @ m @ '':'' @ sec))
          = clockHour n @ '':'' @ m @ '' '' @ meridiem n"
      by (simp only: formatTime_agree[symmetric] simp_thms)
  qed
  from formatTime_agree e r c show ?thesis by blast
qed

theorem formatTime_equal_witness:
  "CHR '':'' \<notin> set ''30''
   \<and> admin_formatTime (Some ''00:30'') = ''12:30 AM''
   \<and> student_formatTime (Some ''00:30'') = ''12:30 AM''
   \<and> student_formatTime (Some ''12:30:45'') = ''12:30 PM''
   \<and> admin_formatTime (Some ''12:30:45'') = ''12:30 PM''
   \<and> admin_formatTime (Some ''13:05'') = ''1:05 PM''
   \<and> student_formatTime (Some ''13:05'') = ''1:05 PM''
   \<and> admin_formatTime (Some ''09:30:00'') = ''9:30 AM''
   \<and> student_formatTime (Some ''23:59:59'') = ''11:59 PM''"
  using formatTime_equal[where t = "Some ''00:30''" and m = "''30''" and sec = "''45''"
          and n = 13]
        formatTime_equal[where t = "Some ''12:30:45''" and m = "''05''" and sec = "''45''"
          and n = 13]
        formatTime_equal[where t = "Some ''09:30:00''" and m = "''30''" and sec = "''00''"
          and n = 9]
        formatTime_equal[where t = "Some ''23:59:59''" and m = "''59''" and sec = "''59''"
          and n = 23]
  by (simp add: twoDigits_def clockHour_def clockHours_def meridiem_def)

subsection \<open>Rendering and actions\<close>







text \<open>
  C8. When the filtered list is empty the admin table holds the one message row
  \<open>No appointments found matching these criteria.\<close> and the student list the one
  paragraph \<open>No appointments found\<close>; when it is not empty, neither view shows the
  placeholder: there is one row or card for each appointment.
\<close>

theorem empty_result_placeholder:
  "(filteredSorted dateValue store statusFilter searchInput sortChoice = [] \<longrightarrow>
      applyFiltersAndSort dateValue store statusFilter searchInput sortChoice
        = [MessageRow ''No appointments found matching these criteria.''])
   \<and> (filteredSorted dateValue store statusFilter searchInput sortChoice \<noteq> [] \<longrightarrow>
      applyFiltersAndSort dateValue store statusFilter searchInput sortChoice
        = map (\<lambda>apt. AppointmentRow (admin_row_of apt))
            (filteredSorted dateValue store statusFilter searchInput sortChoice))
   \<and> (studentFiltered store filter_value = [] \<longrightarrow>
      filterAppointments store filter_value = [Paragraph ''No appointments found''])
   \<and> (studentFiltered store filter_value \<noteq> [] \<longrightarrow>
      filterAppointments store filter_value
        = map (\<lambda>apt. Card (student_card_of apt)) (studentFiltered store filter_value))"
  by (simp add: applyFiltersAndSort_def admin_displayAppointments_def
      filterAppointments_def student_displayAppointments_def)

theorem empty_result_placeholder_witness:
  "filteredSorted isoDateValue exampleStore ''rejected'' [] ''all'' = []
   \<and> applyFiltersAndSort isoDateValue exampleStore ''rejected'' [] ''all''
       = [MessageRow ''No appointments found matching these criteria.'']
   \<and> studentFiltered exampleStore ''canceled'' = []
   \<and> filterAppointments exampleStore ''canceled'' = [Paragraph ''No appointments found'']
   \<and> studentFiltered exampleStore ''pending'' \<noteq> []
   \<and> filterAppointments exampleStore ''pending'' = [Card (student_card_of apt1)]
   \<and> filteredSorted isoDateValue exampleStore ''pending'' [] ''all'' \<noteq> []
   \<and> applyFiltersAndSort isoDateValue exampleStore ''pending'' [] ''all''
       = [AppointmentRow (admin_row_of apt1)]"
proof -
  have 1: "filteredSorted isoDateValue exampleStore ''rejected'' [] ''all'' = []"
    by (simp add: filteredSorted_def filterPredicate_def example_defs)
  have 2: "studentFiltered exampleStore ''canceled'' = []"
    by (simp add: studentFiltered_def example_defs)
  have 3: "studentFiltered exampleStore ''pending'' = [apt1]"
    by (simp add: studentFiltered_def example_defs)
  have 4: "filteredSorted isoDateValue exampleStore ''pending'' [] ''all'' = [apt1]"
    by (simp add: filteredSorted_def filterPredicate_def matchesType_def example_defs string_evals)
  from empty_result_placeholder[of isoDateValue exampleStore "''rejected''" "[]" "''all''"
         "''canceled''"]
       empty_result_placeholder[of isoDateValue exampleStore "''pending''" "[]" "''all''"
         "''pending''"]
       1 2 3 4
  show ?thesis by simp
qed

subsection \<open>Scanner and login\<close>

lemmas trace_defs = fetches_def dialogs_def timeouts_def

lemma scanCatch_backoff:
  "backoff (StopScanner # SetInnerHTML i h # Fetch r # scanCatch)"
  by (simp add: backoff_def scanCatch_def trace_defs)

text \<open>
  What \<open>onScanSuccess\<close> does, for every decoded text and every outcome of its request.
  It first stops the scanner, shows the id and sends exactly one request, the \<open>PUT\<close>
  with status \<open>completed\<close> and the note \<open>Verified via QR Scan\<close>, and does not restart
  the scanner itself. Then: for a 2xx response with a JSON body, the success dialog
  closes after 2500 ms and restarts the scanner; for a response outside 2xx whose
  \<open>detail\<close> is exactly \<open>ALREADY_SCANNED\<close> or \<open>already_scanned\<close>, the one warning dialog
  restarts the scanner when it closes and no timer is set; in every other case, a
  fetch that throws and a body that is not JSON (whatever the status) included, one
  error dialog is shown and a timer of 2000 ms restarts the scanner.
\<close>

lemma scan_outcomes:
  "take 3 (onScanSuccess token decodedText res)
     = [StopScanner,
        SetInnerHTML ''scan-result'' (''Processing ID: '' @ decodedText @ ''...''),
        Fetch (scanRequest token decodedText)]
   \<and> fetches (onScanSuccess token decodedText res) = [scanRequest token decodedText]
   \<and> req_method (scanRequest token decodedText) = ''PUT''
   \<and> req_body (scanRequest token decodedText)
       = Some (JObject [(''status'', JString ''completed''),
                        (''admin_note'', JString ''Verified via QR Scan'')])
   \<and> StartScanner \<notin> set (onScanSuccess token decodedText res)
   \<and> (case res of
         NetworkFailure \<Rightarrow> backoff (onScanSuccess token decodedText res)
       | Response st None \<Rightarrow> backoff (onScanSuccess token decodedText res)
       | Response st (Some data) \<Rightarrow>
           if ok st then confirmed (onScanSuccess token decodedText res)
           else if alreadyScanned data then conflict (onScanSuccess token decodedText res)
           else backoff (onScanSuccess token decodedText res))"
proof -
  have 1: "take 3 (onScanSuccess token decodedText res)
     = [StopScanner,
        SetInnerHTML ''scan-result'' (''Processing ID: '' @ decodedText @ ''...''),
        Fetch (scanRequest token decodedText)]"
    by (simp add: onScanSuccess_def)
  have 2: "fetches (onScanSuccess token decodedText res) = [scanRequest token decodedText]"
    by (simp add: onScanSuccess_def scanCatch_def trace_defs
        split: fetch_result.splits option.splits sum.splits)
  have 3: "req_method (scanRequest token decodedText) = ''PUT''
     \<and> req_body (scanRequest token decodedText)
       = Some (JObject [(''status'', JString ''completed''),
                        (''admin_note'', JString ''Verified via QR Scan'')])"
    by (simp add: scanRequest_def)
  have 4: "StartScanner \<notin> set (onScanSuccess token decodedText res)"
    by (simp add: onScanSuccess_def scanCatch_def
        split: fetch_result.splits option.splits sum.splits)
  have 5: "(case res of
         NetworkFailure \<Rightarrow> backoff (onScanSuccess token decodedText res)
       | Response st None \<Rightarrow> backoff (onScanSuccess token decodedText res)
       | Response st (Some data) \<Rightarrow>
           if ok st then confirmed (onScanSuccess token decodedText res)
           else if alreadyScanned data then conflict (onScanSuccess token decodedText res)
           else backoff (onScanSuccess token decodedText res))"
  proof (cases res)
    case NetworkFailure
    then show ?thesis by (simp add: onScanSuccess_def scanCatch_backoff)
  next
    case (Response st body)
    show ?thesis
    proof (cases body)
      case None
      with Response show ?thesis by (simp add: onScanSuccess_def scanCatch_backoff)
    next
      case (Some data)
      show ?thesis
      proof (cases "ok st")
        case True
        with Response Some show ?thesis
          by (simp add: onScanSuccess_def confirmed_def trace_defs)
      next
        case False
        show ?thesis
        proof (cases "getProp data ''detail''")
          case (Inl e)
          with Response Some False show ?thesis
            by (simp add: onScanSuccess_def scanCatch_backoff alreadyScanned_def)
        next
          case (Inr detail)
          with Response Some False show ?thesis
            by (simp add: onScanSuccess_def alreadyScanned_def conflict_def backoff_def
                trace_defs)
        qed
      qed
    qed
  qed
  from 1 2 3 4 5 show ?thesis by blast
qed

lemma scan_outcomes_examples:
  "confirmed (onScanSuccess ''tok'' ''7'' (Response 200 (Some (JObject []))))
   \<and> conflict (onScanSuccess ''tok'' ''7''
        (Response 400 (Some (JObject [(''detail'', JString ''ALREADY_SCANNED'')]))))
   \<and> backoff (onScanSuccess ''tok'' ''7''
        (Response 400 (Some (JObject [(''detail'', JString ''Ticket ALREADY_SCANNED today'')]))))
   \<and> backoff (onScanSuccess ''tok'' ''7'' NetworkFailure)
   \<and> backoff (onScanSuccess ''tok'' ''7'' (Response 200 None))"
  using scan_outcomes[of "''tok''" "''7''" "Response 200 (Some (JObject []))"]
    scan_outcomes[of "''tok''" "''7''"
      "Response 400 (Some (JObject [(''detail'', JString ''ALREADY_SCANNED'')]))"]
    scan_outcomes[of "''tok''" "''7''"
      "Response 400 (Some (JObject [(''detail'', JString ''Ticket ALREADY_SCANNED today'')]))"]
    scan_outcomes[of "''tok''" "''7''" NetworkFailure]
    scan_outcomes[of "''tok''" "''7''" "Response 200 None"]
  by (simp add: ok_def alreadyScanned_def getProp_def)

text \<open>
  C4. On a 2xx response the scan handler should resume scanning after the confirmation
  delay. The handler awaits \<open>response.json()\<close> before it tests \<open>response.ok\<close>, although
  its success branch never reads the parsed body, so a 2xx response whose body is not
  JSON lands in the \<open>catch\<close> block: for the scanned id \<open>7\<close> and status 200 the one
  request is sent, the only dialog is the error \<open>Connection Error\<close>, the scanner is
  restarted by the timer of 2000 ms, and the confirmation outcome does not occur,
  though the check-in succeeded. (\<open>deleteAppointment\<close>, \<open>deleteUser\<close> and
  \<open>handleNewUser\<close> of the same script test \<open>response.ok\<close> without parsing first.)
\<close>

theorem scan_2xx_without_json_body:
  "ok 200
   \<and> fetches (onScanSuccess ''tok'' ''7'' (Response 200 None)) = [scanRequest ''tok'' ''7'']
   \<and> map (dlg_icon \<circ> fst) (dialogs (onScanSuccess ''tok'' ''7'' (Response 200 None)))
       = [''error'']
   \<and> map (dlg_text \<circ> fst) (dialogs (onScanSuccess ''tok'' ''7'' (Response 200 None)))
       = [JString ''Connection Error'']
   \<and> timeouts (onScanSuccess ''tok'' ''7'' (Response 200 None)) = [([StartScanner], 2000)]
   \<and> \<not> confirmed (onScanSuccess ''tok'' ''7'' (Response 200 None))
   \<and> confirmed (onScanSuccess ''tok'' ''7'' (Response 200 (Some JNull)))"
  by (simp add: ok_def onScanSuccess_def scanCatch_def confirmed_def trace_defs)

text \<open>
  C9, as amended. For a response outside 2xx whose body is JSON, one dialog is shown,
  and its text is the friendly message about the email format when the status is
  422; otherwise (for a body other than \<open>null\<close>) it is the \<open>detail\<close> when that is a
  string and not empty, and \<open>Invalid email or password.\<close> when the \<open>detail\<close> is
  missing, not a string, or the empty string.
\<close>

theorem login_error_message:
  "(\<not> ok st \<and> st = 422 \<longrightarrow>
      map (dlg_text \<circ> fst) (dialogs (loginSubmit email password (Response st (Some data))))
        = [JString ''Please enter a valid email address format.''])
   \<and> (\<not> ok st \<and> st \<noteq> 422 \<and> getProp data ''detail'' = Inr detail \<longrightarrow>
      map (dlg_text \<circ> fst) (dialogs (loginSubmit email password (Response st (Some data))))
        = [case detail of
             Some (JString s) \<Rightarrow> if s \<noteq> [] then JString s
                                 else JString ''Invalid email or password.''
           | _ \<Rightarrow> JString ''Invalid email or password.''])"
  by (auto simp: loginSubmit_def errorText_def trace_defs split: option.splits json.splits)

theorem login_error_message_witness:
  "\<not> ok 422 \<and> \<not> ok 401
   \<and> map (dlg_text \<circ> fst) (dialogs (loginSubmit ''a@b'' ''pw''
          (Response 422 (Some (JObject [(''detail'', JArray [])]))))) 
       = [JString ''Please enter a valid email address format.'']
   \<and> map (dlg_text \<circ> fst) (dialogs (loginSubmit ''a@b.c'' ''pw''
          (Response 401 (Some (JObject [(''detail'', JString ''Invalid credentials'')])))))
       = [JString ''Invalid credentials'']
   \<and> map (dlg_text \<circ> fst) (dialogs (loginSubmit ''a@b.c'' ''pw''
          (Response 401 (Some (JObject [])))))
       = [JString ''Invalid email or password.'']"
  using login_error_message[where st = 422 and email = "''a@b''" and password = "''pw''"
      and data = "JObject [(''detail'', JArray [])]"]
    login_error_message[where st = 401 and email = "''a@b.c''" and password = "''pw''"
      and data = "JObject [(''detail'', JString ''Invalid credentials'')]"
      and detail = "Some (JString ''Invalid credentials'')"]
    login_error_message[where st = 401 and email = "''a@b.c''" and password = "''pw''"
      and data = "JObject []" and detail = None]
  by (simp add: ok_def getProp_def)

text \<open>
  C9 as the specification words it, with the \<open>detail\<close> shown whenever it is a string,
  fails: for the empty string the generic message is shown.
\<close>

theorem login_empty_detail_counterexample:
  "\<not> ok 401
   \<and> getProp (JObject [(''detail'', JString '''')]) ''detail'' = Inr (Some (JString ''''))
   \<and> claimedErrorText 401 (Some (JString '''')) = ''''
   \<and> map (dlg_text \<circ> fst) (dialogs (loginSubmit ''a@b.c'' ''pw''
          (Response 401 (Some (JObject [(''detail'', JString '''')])))))
       = [JString ''Invalid email or password.'']
   \<and> map (dlg_text \<circ> fst) (dialogs (loginSubmit ''a@b.c'' ''pw''
          (Response 401 (Some (JObject [(''detail'', JString '''')])))))
       \<noteq> [JString (claimedErrorText 401 (Some (JString '''')))]"
  by (simp add: ok_def getProp_def loginSubmit_def errorText_def claimedErrorText_def trace_defs)

subsection \<open>Chat\<close>

lemma addChatMessage_fields [simp]:
  "chatHistory (addChatMessage sender msg s) = chatHistory s"
  "chatRequests (addChatMessage sender msg s) = chatRequests s"
  "reloads (addChatMessage sender msg s) = reloads s"
  by (simp_all add: addChatMessage_def)

lemma chatCatch_fields [simp]:
  "chatHistory (chatCatch s) = chatHistory s"
  "chatRequests (chatCatch s) = chatRequests s"
  "reloads (chatCatch s) = reloads s"
  by (simp_all add: chatCatch_def)

lemma sendChatMessage_history:
  "chatHistory (sendChatMessage token input s) = chatHistory s @ appended (Submit input)"
  by (simp add: sendChatMessage_def Let_def)

lemma sendChatMessage_requests:
  "chatRequests (sendChatMessage token input s) =
     chatRequests s @ requestsOf token (chatHistory s) [Submit input]"
  by (simp add: sendChatMessage_def Let_def)

lemma receiveChatReply_history:
  "chatHistory (receiveChatReply res s) = chatHistory s @ appended (Settle res)"
proof (cases res)
  case NetworkFailure
  then show ?thesis by (simp add: receiveChatReply_def)
next
  case (Response st body)
  show ?thesis
  proof (cases body)
    case None
    with Response show ?thesis by (simp add: receiveChatReply_def)
  next
    case (Some data)
    with Response show ?thesis
      by (simp add: receiveChatReply_def Let_def
          split: sum.splits option.splits json.splits)
  qed
qed

lemma receiveChatReply_requests:
  "chatRequests (receiveChatReply res s) = chatRequests s"
  by (simp add: receiveChatReply_def Let_def
      split: fetch_result.splits sum.splits option.splits json.splits)

lemma chatStep_history:
  "chatHistory (chatStep token s ev) = chatHistory s @ appended ev"
  by (cases ev) (simp_all add: sendChatMessage_history receiveChatReply_history)

lemma chatStep_requests:
  "chatRequests (chatStep token s ev) =
     chatRequests s @ requestsOf token (chatHistory s) [ev]"
  by (cases ev) (simp_all add: sendChatMessage_requests receiveChatReply_requests)

lemma chatRun_Cons: "chatRun token s (ev # evs) = chatRun token (chatStep token s ev) evs"
  by (simp add: chatRun_def)

lemma chatRun_append:
  "chatRun token s (pre @ post) = chatRun token (chatRun token s pre) post"
  by (simp add: chatRun_def)

lemma chatRun_history:
  "chatHistory (chatRun token s evs) = chatHistory s @ concat (map appended evs)"
proof (induction evs arbitrary: s)
  case Nil
  show ?case by (simp add: chatRun_def)
next
  case (Cons ev evs)
  show ?case by (simp add: chatRun_Cons Cons.IH chatStep_history)
qed

lemma chatRun_requests:
  "chatRequests (chatRun token s evs) = chatRequests s @ requestsOf token (chatHistory s) evs"
proof (induction evs arbitrary: s)
  case Nil
  show ?case by (simp add: chatRun_def)
next
  case (Cons ev evs)
  have "chatRequests (chatRun token s (ev # evs))
      = chatRequests (chatStep token s ev)
        @ requestsOf token (chatHistory (chatStep token s ev)) evs"
    by (simp add: chatRun_Cons Cons.IH)
  also have "\<dots> = chatRequests s @ requestsOf token (chatHistory s) (ev # evs)"
    by (simp add: chatStep_history chatStep_requests)
  finally show ?case .
qed

text \<open>
  C6. For a reply whose \<open>response\<close> is the text \<open>r\<close>, the chat calls \<open>loadAppointments\<close>
  once when the lowercased \<open>r\<close> contains \<open>booked\<close> or \<open>canceled\<close>, and not at all when it
  contains neither.
\<close>

theorem chat_reload_on_keyword:
  "getProp data ''response'' = Inr (Some (JString r)) \<longrightarrow>
     reloads (receiveChatReply (Response st (Some data)) s)
       = reloads s
         + (if (\<exists>p q. toLowerCase r = p @ ''booked'' @ q)
               \<or> (\<exists>p q. toLowerCase r = p @ ''canceled'' @ q)
            then 1 else 0)"
  by (simp add: receiveChatReply_def Let_def includes_str_iff)

theorem chat_reload_on_keyword_witness:
  "reloads (receiveChatReply
      (Response 200 (Some (JObject [(''response'',
          JString ''Done, your appointment has been Booked for Monday.'')]))) emptyChat) = 1
   \<and> reloads (receiveChatReply
      (Response 200 (Some (JObject [(''response'',
          JString ''Which day works for you?'')]))) emptyChat) = 0"
proof -
  let ?yes = "''Done, your appointment has been Booked for Monday.''"
  let ?no = "''Which day works for you?''"
  have "includes_str (toLowerCase ?yes) ''booked''"
    by (simp add: string_evals)
  then have c1: "(\<exists>p q. toLowerCase ?yes = p @ ''booked'' @ q)
                 \<or> (\<exists>p q. toLowerCase ?yes = p @ ''canceled'' @ q)"
    unfolding includes_str_iff by (rule disjI1)
  have "\<not> includes_str (toLowerCase ?no) ''booked''"
       "\<not> includes_str (toLowerCase ?no) ''canceled''"
    by (simp_all add: string_evals)
  then have c2: "\<not> ((\<exists>p q. toLowerCase ?no = p @ ''booked'' @ q)
                 \<or> (\<exists>p q. toLowerCase ?no = p @ ''canceled'' @ q))"
    unfolding includes_str_iff by blast
  have g1: "getProp (JObject [(''response'', JString ?yes)]) ''response''
              = Inr (Some (JString ?yes))"
    and g2: "getProp (JObject [(''response'', JString ?no)]) ''response''
              = Inr (Some (JString ?no))"
    by (simp_all add: getProp_def)
  have z: "reloads emptyChat = 0" by (simp add: emptyChat_def)
  from chat_reload_on_keyword[where st = 200 and s = emptyChat, THEN mp, OF g1]
  have r1: "reloads (receiveChatReply
      (Response 200 (Some (JObject [(''response'', JString ?yes)]))) emptyChat) = 1"
    by (simp only: c1 if_True z)
  from chat_reload_on_keyword[where st = 200 and s = emptyChat, THEN mp, OF g2]
  have r2: "reloads (receiveChatReply
      (Response 200 (Some (JObject [(''response'', JString ?no)]))) emptyChat) = 0"
    by (simp only: c2 if_False z)
  from r1 r2 show ?thesis by (rule conjI)
qed

text \<open>
  C7. Along every sequence of chat events the transcript only grows at its end: after
  any further events it is the transcript before them followed by the entries those
  events add, in their order, one user entry for each submitted text that is not blank
  and one model entry for each reply that arrives. The requests sent are exactly one
  for each such submit, and the body of each is the submitted text as \<open>message\<close> and,
  as \<open>history\<close>, one object with role and message for every entry of the transcript
  so far, the submitted text as the last one, in the transcript's order.
\<close>

theorem chat_transcript_discipline:
  "chatHistory (chatRun token s (pre @ post))
     = chatHistory (chatRun token s pre) @ concat (map appended post)
   \<and> chatRequests (chatRun token s evs)
       = chatRequests s @ requestsOf token (chatHistory s) evs
   \<and> (trim input \<noteq> [] \<longrightarrow>
        chatRequests (chatRun token s (pre @ [Submit input]))
          = chatRequests (chatRun token s pre)
            @ [chatRequest token (trim input)
                 (chatHistory (chatRun token s (pre @ [Submit input])))]
        \<and> map req_body (chatRequests (chatRun token s (pre @ [Submit input])))
          = map req_body (chatRequests (chatRun token s pre))
            @ [Some (JObject
                 [(''message'', JString (trim input)),
                  (''history'',
                   JArray (map (\<lambda>e. JObject ((''role'', JString (role e)) #
                                   (case message e of
                                      None \<Rightarrow> []
                                    | Some v \<Rightarrow> [(''message'', v)])))
                             (chatHistory (chatRun token s pre)
                              @ [\<lparr> role = ''user'',
                                    message = Some (JString (trim input)) \<rparr>])))])])"
proof -
  have 1: "chatHistory (chatRun token s (pre @ post))
     = chatHistory (chatRun token s pre) @ concat (map appended post)"
    by (simp add: chatRun_append chatRun_history)
  have 2: "chatRequests (chatRun token s evs)
       = chatRequests s @ requestsOf token (chatHistory s) evs"
    by (rule chatRun_requests)
  have 3: "trim input \<noteq> [] \<longrightarrow>
        chatRequests (chatRun token s (pre @ [Submit input]))
          = chatRequests (chatRun token s pre)
            @ [chatRequest token (trim input)
                 (chatHistory (chatRun token s (pre @ [Submit input])))]"
    by (simp add: chatRun_append chatRun_requests chatRun_history)
  have 4: "trim input \<noteq> [] \<longrightarrow>
        map req_body (chatRequests (chatRun token s (pre @ [Submit input])))
          = map req_body (chatRequests (chatRun token s pre))
            @ [Some (JObject
                 [(''message'', JString (trim input)),
                  (''history'',
                   JArray (map (\<lambda>e. JObject ((''role'', JString (role e)) #
                                   (case message e of
                                      None \<Rightarrow> []
                                    | Some v \<Rightarrow> [(''message'', v)])))
                             (chatHistory (chatRun token s pre)
                              @ [\<lparr> role = ''user'',
                                    message = Some (JString (trim input)) \<rparr>])))])]"
    by (simp add: chatRun_append chatRun_requests chatRun_history chatRequest_def
        entryJson_def)
  from 1 2 3 4 show ?thesis by blast
qed

theorem chat_transcript_discipline_witness:
  "trim ''bye'' \<noteq> []
   \<and> chatHistory (chatRun ''tok'' emptyChat
        [Submit '' book me Monday '',
         Settle (Response 200 (Some (JObject [(''response'', JString ''Booked.'')]))),
         Submit ''   '',
         Submit ''thanks'',
         Settle NetworkFailure,
         Settle (Response 200 (Some (JObject [(''response'', JString ''Welcome.'')]))),
         Submit ''bye''])
     = [\<lparr> role = ''user'', message = Some (JString ''book me Monday'') \<rparr>,
        \<lparr> role = ''model'', message = Some (JString ''Booked.'') \<rparr>,
        \<lparr> role = ''user'', message = Some (JString ''thanks'') \<rparr>,
        \<lparr> role = ''model'', message = Some (JString ''Welcome.'') \<rparr>,
        \<lparr> role = ''user'', message = Some (JString ''bye'') \<rparr>]
   \<and> map req_body (chatRequests (chatRun ''tok'' emptyChat
        [Submit '' book me Monday '',
         Settle (Response 200 (Some (JObject [(''response'', JString ''Booked.'')]))),
         Submit ''   '',
         Submit ''thanks'',
         Settle NetworkFailure,
         Settle (Response 200 (Some (JObject [(''response'', JString ''Welcome.'')]))),
         Submit ''bye'']))
     = [Some (JObject [(''message'', JString ''book me Monday''),
          (''history'', JArray [JObject [(''role'', JString ''user''),
                                         (''message'', JString ''book me Monday'')]])]),
        Some (JObject [(''message'', JString ''thanks''),
          (''history'', JArray [JObject [(''role'', JString ''user''),
                                         (''message'', JString ''book me Monday'')],
                                JObject [(''role'', JString ''model''),
                                         (''message'', JString ''Booked.'')],
                                JObject [(''role'', JString ''user''),
                                         (''message'', JString ''thanks'')]])]),
        Some (JObject [(''message'', JString ''bye''),
          (''history'', JArray [JObject [(''role'', JString ''user''),
                                         (''message'', JString ''book me Monday'')],
                                JObject [(''role'', JString ''model''),
                                         (''message'', JString ''Booked.'')],
                                JObject [(''role'', JString ''user''),
                                         (''message'', JString ''thanks'')],
                                JObject [(''role'', JString ''model''),
                                         (''message'', JString ''Welcome.'')],
                                JObject [(''role'', JString ''user''),
                                         (''message'', JString ''bye'')]])])]"
proof -
  let ?pre = "[Submit '' book me Monday '',
         Settle (Response 200 (Some (JObject [(''response'', JString ''Booked.'')]))),
         Submit ''   '',
         Submit ''thanks'',
         Settle NetworkFailure,
         Settle (Response 200 (Some (JObject [(''response'', JString ''Welcome.'')])))]"
  have t: "trim ''bye'' \<noteq> []"
    by (simp add: trim_def isWhiteSpace_def)
  have p: "chatHistory (chatRun ''tok'' emptyChat ?pre)
     = [\<lparr> role = ''user'', message = Some (JString ''book me Monday'') \<rparr>,
        \<lparr> role = ''model'', message = Some (JString ''Booked.'') \<rparr>,
        \<lparr> role = ''user'', message = Some (JString ''thanks'') \<rparr>,
        \<lparr> role = ''model'', message = Some (JString ''Welcome.'') \<rparr>]"
    by (simp add: chatRun_history emptyChat_def trim_def isWhiteSpace_def getProp_def)
  have q: "map req_body (chatRequests (chatRun ''tok'' emptyChat ?pre))
     = [Some (JObject [(''message'', JString ''book me Monday''),
          (''history'', JArray [JObject [(''role'', JString ''user''),
                                         (''message'', JString ''book me Monday'')]])]),
        Some (JObject [(''message'', JString ''thanks''),
          (''history'', JArray [JObject [(''role'', JString ''user''),
                                         (''message'', JString ''book me Monday'')],
                                JObject [(''role'', JString ''model''),
                                         (''message'', JString ''Booked.'')],
                                JObject [(''role'', JString ''user''),
                                         (''message'', JString ''thanks'')]])])]"
    by (simp add: chatRun_requests emptyChat_def trim_def isWhiteSpace_def getProp_def
        chatRequest_def entryJson_def)
  have b: "trim ''bye'' = ''bye''"
    by (simp add: trim_def isWhiteSpace_def)
  note T = chat_transcript_discipline[where token = "''tok''" and s = emptyChat and pre = ?pre
      and post = "[Submit ''bye'']" and input = "''bye''" and evs = "[]"]
  from T have h1: "chatHistory (chatRun ''tok'' emptyChat (?pre @ [Submit ''bye'']))
      = chatHistory (chatRun ''tok'' emptyChat ?pre) @ concat (map appended [Submit ''bye''])"
    by (rule conjunct1)
  have H: "chatHistory (chatRun ''tok'' emptyChat
        [Submit '' book me Monday '',
         Settle (Response 200 (Some (JObject [(''response'', JString ''Booked.'')]))),
         Submit ''   '',
         Submit ''thanks'',
         Settle NetworkFailure,
         Settle (Response 200 (Some (JObject [(''response'', JString ''Welcome.'')]))),
         Submit ''bye''])
     = [\<lparr> role = ''user'', message = Some (JString ''book me Monday'') \<rparr>,
        \<lparr> role = ''model'', message = Some (JString ''Booked.'') \<rparr>,
        \<lparr> role = ''user'', message = Some (JString ''thanks'') \<rparr>,
        \<lparr> role = ''model'', message = Some (JString ''Welcome.'') \<rparr>,
        \<lparr> role = ''user'', message = Some (JString ''bye'') \<rparr>]"
    using h1 p b by simp
  from T t have h3: "map req_body (chatRequests (chatRun ''tok'' emptyChat (?pre @ [Submit ''bye''])))
          = map req_body (chatRequests (chatRun ''tok'' emptyChat ?pre))
            @ [Some (JObject
                 [(''message'', JString (trim ''bye'')),
                  (''history'',
                   JArray (map (\<lambda>e. JObject ((''role'', JString (role e)) #
                                   (case message e of
                                      None \<Rightarrow> []
                                    | Some v \<Rightarrow> [(''message'', v)])))
                             (chatHistory (chatRun ''tok'' emptyChat ?pre)
                              @ [\<lparr> role = ''user'',
                                    message = Some (JString (trim ''bye'')) \<rparr>])))])]"
    by blast
  have R: "map req_body (chatRequests (chatRun ''tok'' emptyChat
        [Submit '' book me Monday '',
         Settle (Response 200 (Some (JObject [(''response'', JString ''Booked.'')]))),
         Submit ''   '',
         Submit ''thanks'',
         Settle NetworkFailure,
         Settle (Response 200 (Some (JObject [(''response'', JString ''Welcome.'')]))),
         Submit ''bye'']))
     = [Some (JObject [(''message'', JString ''book me Monday''),
          (''history'', JArray [JObject [(''role'', JString ''user''),
                                         (''message'', JString ''book me Monday'')]])]),
        Some (JObject [(''message'', JString ''thanks''),
          (''history'', JArray [JObject [(''role'', JString ''user''),
                                         (''message'', JString ''book me Monday'')],
                                JObject [(''role'', JString ''model''),
                                         (''message'', JString ''Booked.'')],
                                JObject [(''role'', JString ''user''),
                                         (''message'', JString ''thanks'')]])]),
        Some (JObject [(''message'', JString ''bye''),
          (''history'', JArray [JObject [(''role'', JString ''user''),
                                         (''message'', JString ''book me Monday'')],
                                JObject [(''role'', JString ''model''),
                                         (''message'', JString ''Booked.'')],
                                JObject [(''role'', JString ''user''),
                                         (''message'', JString ''thanks'')],
                                JObject [(''role'', JString ''model''),
                                         (''message'', JString ''Welcome.'')],
                                JObject [(''role'', JString ''user''),
                                         (''message'', JString ''bye'')]])])]"
    using h3 p q b by simp
  from t H R show ?thesis by (intro conjI)
qed

end
